theory Spec2Isabelle
  imports Complex_Main
begin

section \<open>Python values, exceptions and sequences\<close>

text \<open>
  The development embeds \<^verbatim>\<open>src/AutoTS/AutoTS.py\<close>: the class \<^verbatim>\<open>AutoTS\<close> with its
  constructor, \<^verbatim>\<open>fit\<close>, the four fitters, the four predictors and \<^verbatim>\<open>predict\<close>.
  A method that can raise returns a sum, \<open>Inl\<close> carrying the exception; a method that
  mutates the instance takes the state and returns the new one, also when it raises.
  A leading underscore of a Python name is dropped (\<^verbatim>\<open>_fit_tbats\<close> is \<open>fit_tbats\<close>).

  An exception is its class and a short message. \<open>ValueError\<close> stands for the class and
  its subclasses, which is what \<^verbatim>\<open>except ValueError\<close> catches; \<open>OtherError\<close> is any
  class outside the five named ones.
\<close>

datatype py_error =
    AttributeError string
  | TypeError string
  | ValueError string
  | IndexError string
  | KeyError string
  | OtherError string

fun is_ValueError :: "py_error \<Rightarrow> bool" where
  "is_ValueError (ValueError m) = True"
| "is_ValueError e = False"

text \<open>Values stored in the keyword-argument dictionaries.\<close>

datatype pyval = PyNone | PyBool bool | PyInt int | PyStr string | PyFloat real

type_synonym pydict = "string \<Rightarrow> pyval option"

text \<open>
  A float is a real number or NaN, which is \<open>None\<close>: in a cell NaN is pandas' missing
  value, and an error metric can return it. Rounding and the two infinities are outside
  the model. \<open>cell_lt\<close> is \<^verbatim>\<open><\<close> on floats: false whenever one side is NaN.
\<close>

type_synonym cell = "real option"

definition cell_lt :: "cell \<Rightarrow> cell \<Rightarrow> bool" where
  "cell_lt a b = (case a of None \<Rightarrow> False | Some x \<Rightarrow> (case b of None \<Rightarrow> False | Some y \<Rightarrow> x < y))"

text \<open>Subscripting \<^verbatim>\<open>xs[i]\<close>: an index below zero is taken from the end of the list.\<close>

definition py_index :: "'a list \<Rightarrow> int \<Rightarrow> py_error + 'a" where
  "py_index xs i =
     (if 0 \<le> i \<and> i < int (length xs) then Inr (xs ! nat i)
      else if i < 0 \<and> - int (length xs) \<le> i then Inr (xs ! nat (int (length xs) + i))
      else Inl (IndexError ''list index out of range''))"

text \<open>\<^verbatim>\<open>xs[:k]\<close> and \<^verbatim>\<open>xs[k:]\<close> for a Python int \<open>k\<close>.\<close>

definition py_slice_to :: "'a list \<Rightarrow> int \<Rightarrow> 'a list" where
  "py_slice_to xs k =
     (if 0 \<le> k then take (nat k) xs else take (nat (int (length xs) + k)) xs)"

definition py_slice_from :: "'a list \<Rightarrow> int \<Rightarrow> 'a list" where
  "py_slice_from xs k =
     (if 0 \<le> k then drop (nat k) xs else drop (nat (int (length xs) + k)) xs)"

text \<open>
  Sequencing of calls that can raise, and \<^verbatim>\<open>functools.reduce(f, xs)\<close> with no
  initial value, for a function that can raise.
\<close>

definition bind_err :: "py_error + 'a \<Rightarrow> ('a \<Rightarrow> py_error + 'b) \<Rightarrow> py_error + 'b" where
  "bind_err r f = (case r of Inl e \<Rightarrow> Inl e | Inr x \<Rightarrow> f x)"

fun foldl_err :: "('a \<Rightarrow> 'a \<Rightarrow> py_error + 'a) \<Rightarrow> 'a \<Rightarrow> 'a list \<Rightarrow> py_error + 'a" where
  "foldl_err f acc [] = Inr acc"
| "foldl_err f acc (x # xs) = bind_err (f acc x) (\<lambda>acc'. foldl_err f acc' xs)"

definition py_reduce :: "('a \<Rightarrow> 'a \<Rightarrow> py_error + 'a) \<Rightarrow> 'a list \<Rightarrow> py_error + 'a" where
  "py_reduce f xs =
     (case xs of
        [] \<Rightarrow> Inl (TypeError ''reduce() of empty iterable with no initial value'')
      | x # rest \<Rightarrow> foldl_err f x rest)"

text \<open>\<^verbatim>\<open>s.endswith(suf)\<close> and \<^verbatim>\<open>s.lower()\<close> (on ASCII letters).\<close>

definition endswith :: "string \<Rightarrow> string \<Rightarrow> bool" where
  "endswith s suf \<longleftrightarrow> length suf \<le> length s \<and> drop (length s - length suf) s = suf"

definition lower_char :: "char \<Rightarrow> char" where
  "lower_char c =
     (case map_of (zip ''ABCDEFGHIJKLMNOPQRSTUVWXYZ'' ''abcdefghijklmnopqrstuvwxyz'') c of
        Some d \<Rightarrow> d
      | None \<Rightarrow> c)"

definition lower :: "string \<Rightarrow> string" where
  "lower s = map lower_char s"

text \<open>
  A call \<^verbatim>\<open>f(k1=.., k2=.., **d)\<close> raises \<open>TypeError\<close> when \<open>d\<close> holds one of the
  keywords written out in the call.
\<close>

definition kwargs_clash :: "string list \<Rightarrow> pydict \<Rightarrow> bool" where
  "kwargs_clash explicit d \<longleftrightarrow> (\<exists>k \<in> set explicit. d k \<noteq> None)"

subsection \<open>Sorting a short list\<close>

text \<open>
  CPython's \<^verbatim>\<open>list.sort\<close>, which \<^verbatim>\<open>sorted\<close> calls, asks only whether one element is
  below another (\<open>lt\<close>). On a list of fewer than 64 elements it finds the run the list
  starts with, which ascends or strictly descends and is then reversed
  (\<^verbatim>\<open>count_run\<close>), and puts every later element into the run at the place a binary
  search gives (\<^verbatim>\<open>binarysort\<close>). \<open>run_while\<close> counts how far the run goes on after
  its second element.
\<close>

fun run_while :: "('a \<Rightarrow> 'a \<Rightarrow> bool) \<Rightarrow> 'a \<Rightarrow> 'a list \<Rightarrow> nat" where
  "run_while goes_on prev [] = 0"
| "run_while goes_on prev (x # xs) =
     (if goes_on x prev then Suc (run_while goes_on x xs) else 0)"

definition count_run :: "('a \<Rightarrow> 'a \<Rightarrow> bool) \<Rightarrow> 'a list \<Rightarrow> nat \<times> bool" where
  "count_run lt xs =
     (case xs of
        a # b # rest \<Rightarrow>
          (if lt b a then (2 + run_while lt b rest, True)
           else (2 + run_while (\<lambda>x prev. \<not> lt x prev) b rest, False))
      | short \<Rightarrow> (length xs, False))"

function bisect :: "('a \<Rightarrow> 'a \<Rightarrow> bool) \<Rightarrow> 'a \<Rightarrow> 'a list \<Rightarrow> nat \<Rightarrow> nat \<Rightarrow> nat" where
  "bisect lt pivot run l r =
     (if l < r
      then (if lt pivot (run ! (l + (r - l) div 2))
            then bisect lt pivot run l (l + (r - l) div 2)
            else bisect lt pivot run (l + (r - l) div 2 + 1) r)
      else l)"
  by pat_completeness auto

termination bisect
  by (relation "measure (\<lambda>(lt, pivot, run, l, r). r - l)") auto

declare bisect.simps [simp del]

fun binarysort :: "('a \<Rightarrow> 'a \<Rightarrow> bool) \<Rightarrow> 'a list \<Rightarrow> 'a list \<Rightarrow> 'a list" where
  "binarysort lt run [] = run"
| "binarysort lt run (pivot # rest) =
     binarysort lt
       (take (bisect lt pivot run 0 (length run)) run @ pivot #
        drop (bisect lt pivot run 0 (length run)) run)
       rest"

definition list_sort_short :: "('a \<Rightarrow> 'a \<Rightarrow> bool) \<Rightarrow> 'a list \<Rightarrow> 'a list" where
  "list_sort_short lt xs =
     (if length xs < 2 then xs
      else (let n = fst (count_run lt xs);
                run = (if snd (count_run lt xs) then rev (take n xs) else take n xs)
            in binarysort lt run (drop n xs)))"

section \<open>Dates\<close>

text \<open>
  A naive \<^verbatim>\<open>datetime\<close>: year, month (1 to 12), day and the time of day in
  microseconds. Comparison is the lexicographic one of Python.
\<close>

record datetime =
  year :: int
  month :: int
  day :: int
  tod :: nat

definition dt_less :: "datetime \<Rightarrow> datetime \<Rightarrow> bool" where
  "dt_less a b \<longleftrightarrow>
     year a < year b \<or> (year a = year b \<and>
       (month a < month b \<or> (month a = month b \<and>
         (day a < day b \<or> (day a = day b \<and> tod a < tod b)))))"

definition dt_le :: "datetime \<Rightarrow> datetime \<Rightarrow> bool" where
  "dt_le a b \<longleftrightarrow> dt_less a b \<or> a = b"

definition is_leap :: "int \<Rightarrow> bool" where
  "is_leap y \<longleftrightarrow> y mod 4 = 0 \<and> (y mod 100 \<noteq> 0 \<or> y mod 400 = 0)"

definition days_in_month :: "int \<Rightarrow> int \<Rightarrow> int" where
  "days_in_month y m =
     (if m = 2 then (if is_leap y then 29 else 28)
      else if m = 4 \<or> m = 6 \<or> m = 9 \<or> m = 11 then 30 else 31)"

text \<open>
  \<^verbatim>\<open>d + relativedelta(months=+1)\<close>: the next month, the day clipped to the length of
  that month, the time of day kept.
\<close>

definition plus_one_month :: "datetime \<Rightarrow> datetime" where
  "plus_one_month d =
     (let y = (if month d = 12 then year d + 1 else year d);
          m = (if month d = 12 then 1 else month d + 1)
      in d\<lparr>year := y, month := m, day := min (day d) (days_in_month y m)\<rparr>)"

text \<open>
  \<^verbatim>\<open>(b.year - a.year) * 12 + (b.month - a.month)\<close>, the month arithmetic the
  predictors write out.
\<close>

definition months_between :: "datetime \<Rightarrow> datetime \<Rightarrow> int" where
  "months_between a b = (year b - year a) * 12 + (month b - month a)"

text \<open>
  \<^verbatim>\<open>pd.date_range(start, end, freq='MS')\<close>: the month starts in \<open>[start, end]\<close>. A
  start that is not the first of a month is rolled forward to the first of the next
  month; the time of day of the start is kept.
\<close>

definition month_start_plus :: "datetime \<Rightarrow> nat \<Rightarrow> datetime" where
  "month_start_plus f k =
     (let t = year f * 12 + (month f - 1) + int k
      in f\<lparr>year := t div 12, month := t mod 12 + 1, day := 1\<rparr>)"

definition rollforward :: "datetime \<Rightarrow> datetime" where
  "rollforward s = (if day s = 1 then s else month_start_plus s 1)"

definition date_range_MS :: "datetime \<Rightarrow> datetime \<Rightarrow> datetime list" where
  "date_range_MS s e =
     (let f = rollforward s;
          n = months_between f e;
          cnt = (if day e > 1 \<or> (day e = 1 \<and> tod f \<le> tod e) then n + 1 else n)
      in map (month_start_plus f) [0 ..< nat cnt])"

section \<open>Series and data frames\<close>

text \<open>
  A \<^verbatim>\<open>pd.Series\<close> with a datetime index is the list of its (label, value) pairs. A
  \<^verbatim>\<open>pd.DataFrame\<close> is its column names and its rows, each row the index label and
  one cell per column. The operations below are the pandas calls the source makes.
\<close>

type_synonym series = "(datetime \<times> cell) list"

record dataframe =
  columns :: "string list"
  rows :: "(datetime \<times> cell list) list"

definition df_index :: "dataframe \<Rightarrow> datetime list" where
  "df_index df = map fst (rows df)"

definition row_cell :: "string list \<Rightarrow> cell list \<Rightarrow> string \<Rightarrow> cell" where
  "row_cell cols vs c = (case map_of (zip cols vs) c of Some v \<Rightarrow> v | None \<Rightarrow> None)"

text \<open>\<^verbatim>\<open>df[c]\<close> for one column name and \<^verbatim>\<open>df[[c1, ..]]\<close> for a list of names.\<close>

definition getitem :: "dataframe \<Rightarrow> string \<Rightarrow> py_error + series" where
  "getitem df c =
     (if c \<in> set (columns df)
      then Inr (map (\<lambda>(d, vs). (d, row_cell (columns df) vs c)) (rows df))
      else Inl (KeyError c))"

definition getitem_list :: "dataframe \<Rightarrow> string list \<Rightarrow> py_error + dataframe" where
  "getitem_list df cs =
     (if set cs \<subseteq> set (columns df)
      then Inr \<lparr>columns = cs,
                rows = map (\<lambda>(d, vs). (d, map (row_cell (columns df) vs) cs)) (rows df)\<rparr>
      else Inl (KeyError ''not in index''))"

text \<open>\<^verbatim>\<open>df.drop(c, axis='columns')\<close>.\<close>

definition drop_column :: "dataframe \<Rightarrow> string \<Rightarrow> py_error + dataframe" where
  "drop_column df c =
     (if c \<in> set (columns df)
      then Inr \<lparr>columns = filter (\<lambda>n. n \<noteq> c) (columns df),
                rows = map (\<lambda>(d, vs).
                         (d, map snd (filter (\<lambda>(n, v). n \<noteq> c) (zip (columns df) vs))))
                       (rows df)\<rparr>
      else Inl (KeyError c))"

text \<open>\<^verbatim>\<open>df.iloc[:k, :]\<close> and \<^verbatim>\<open>df.iloc[k:, :]\<close>.\<close>

definition iloc_to :: "dataframe \<Rightarrow> int \<Rightarrow> dataframe" where
  "iloc_to df k = df\<lparr>rows := py_slice_to (rows df) k\<rparr>"

definition iloc_from :: "dataframe \<Rightarrow> int \<Rightarrow> dataframe" where
  "iloc_from df k = df\<lparr>rows := py_slice_from (rows df) k\<rparr>"

text \<open>
  \<^verbatim>\<open>pd.merge(left, right, left_index=True, right_index=True)\<close>: the inner join on
  the index, in the order of the left rows. A column name that both frames hold gets
  the suffix \<^verbatim>\<open>_x\<close> on the left and \<^verbatim>\<open>_y\<close> on the right.
\<close>

definition merge :: "dataframe \<Rightarrow> dataframe \<Rightarrow> dataframe" where
  "merge l r =
     \<lparr>columns =
        map (\<lambda>c. if c \<in> set (columns r) then c @ ''_x'' else c) (columns l) @
        map (\<lambda>c. if c \<in> set (columns l) then c @ ''_y'' else c) (columns r),
      rows =
        concat (map (\<lambda>(k, lv).
                  map (\<lambda>(k', rv). (k, lv @ rv)) (filter (\<lambda>(k', rv). k' = k) (rows r)))
                (rows l))\<rparr>"

text \<open>\<^verbatim>\<open>df.mean(axis='columns')\<close>: the mean of each row, missing cells skipped.\<close>

definition mean_skipna :: "cell list \<Rightarrow> cell" where
  "mean_skipna cs =
     (let vs = map the (filter (\<lambda>c. c \<noteq> None) cs)
      in if vs = [] then None else Some (sum_list vs / real (length vs)))"

definition mean_columns :: "dataframe \<Rightarrow> cell list" where
  "mean_columns df = map (\<lambda>(d, vs). mean_skipna vs) (rows df)"

text \<open>
  \<^verbatim>\<open>df[c] = values\<close> for values that carry the frame's own index: the column is
  replaced when the frame has it, appended otherwise.
\<close>

definition setitem :: "dataframe \<Rightarrow> string \<Rightarrow> cell list \<Rightarrow> dataframe" where
  "setitem df c new =
     (if c \<in> set (columns df)
      then df\<lparr>rows := map (\<lambda>((d, vs), v).
                          (d, map (\<lambda>(n, old). if n = c then v else old) (zip (columns df) vs)))
                        (zip (rows df) new)\<rparr>
      else \<lparr>columns = columns df @ [c],
            rows = map (\<lambda>((d, vs), v). (d, vs @ [v])) (zip (rows df) new)\<rparr>)"

text \<open>
  \<^verbatim>\<open>pd.DataFrame({a: series, b: array})\<close>: the index is the series' index, and an
  array of another length raises.
\<close>

definition DataFrame_series_array ::
  "string \<Rightarrow> series \<Rightarrow> string \<Rightarrow> cell list \<Rightarrow> py_error + dataframe" where
  "DataFrame_series_array a s b arr =
     (if length arr = length s
      then Inr \<lparr>columns = [a, b], rows = map (\<lambda>((d, v), w). (d, [v, w])) (zip s arr)\<rparr>
      else Inl (ValueError ''array length does not match index length''))"

text \<open>
  \<^verbatim>\<open>pd.DataFrame({a: s1, b: s2})\<close> for two series: with equal indexes the rows pair
  up; with different indexes the frame is aligned on the sorted union of the labels
  and a label one series misses holds a missing cell; labels that repeat cannot be
  aligned.
\<close>

fun dt_insort :: "datetime \<Rightarrow> datetime list \<Rightarrow> datetime list" where
  "dt_insort d [] = [d]"
| "dt_insort d (x # xs) = (if dt_le d x then d # x # xs else x # dt_insort d xs)"

definition dt_sort :: "datetime list \<Rightarrow> datetime list" where
  "dt_sort ds = foldr dt_insort ds []"

definition series_at :: "series \<Rightarrow> datetime \<Rightarrow> cell" where
  "series_at s d = (case map_of s d of Some v \<Rightarrow> v | None \<Rightarrow> None)"

definition DataFrame_two_series ::
  "string \<Rightarrow> series \<Rightarrow> string \<Rightarrow> series \<Rightarrow> py_error + dataframe" where
  "DataFrame_two_series a s1 b s2 =
     (if map fst s1 = map fst s2
      then Inr \<lparr>columns = [a, b],
                rows = map (\<lambda>((d, v), (d', w)). (d, [v, w])) (zip s1 s2)\<rparr>
      else if distinct (map fst s1) \<and> distinct (map fst s2)
      then Inr \<lparr>columns = [a, b],
                rows = map (\<lambda>d. (d, [series_at s1 d, series_at s2 d]))
                         (dt_sort (remdups (map fst s1 @ map fst s2)))\<rparr>
      else Inl (ValueError ''cannot reindex on an axis with duplicate labels''))"

text \<open>
  \<^verbatim>\<open>pd.Series(values, index=idx)\<close>. An array of another length than the index
  raises; a series given as the values is reindexed instead, a label it misses
  holding a missing cell.
\<close>

definition Series_of_array :: "cell list \<Rightarrow> datetime list \<Rightarrow> py_error + series" where
  "Series_of_array arr idx =
     (if length arr = length idx then Inr (zip idx arr)
      else Inl (ValueError ''length of values does not match length of index''))"

definition Series_reindex :: "series \<Rightarrow> datetime list \<Rightarrow> series" where
  "Series_reindex s idx = map (\<lambda>d. (d, series_at s d)) idx"

text \<open>
  \<^verbatim>\<open>index.get_loc(d)\<close>: the position of a label, a \<open>KeyError\<close> for a label the index
  misses. For a label that repeats pandas returns the positions as a slice or mask.
\<close>

datatype loc = Loc nat | LocMany "nat list"

definition get_loc :: "datetime list \<Rightarrow> datetime \<Rightarrow> py_error + loc" where
  "get_loc idx d =
     (case filter (\<lambda>i. idx ! i = d) [0 ..< length idx] of
        [] \<Rightarrow> Inl (KeyError ''date'')
      | [i] \<Rightarrow> Inr (Loc i)
      | ps \<Rightarrow> Inr (LocMany ps))"

text \<open>\<^verbatim>\<open>s.loc[a:b]\<close> and \<^verbatim>\<open>s.loc[a:]\<close> on a series with increasing labels.\<close>

definition loc_between :: "series \<Rightarrow> datetime \<Rightarrow> datetime \<Rightarrow> series" where
  "loc_between s a b = filter (\<lambda>(d, v). dt_le a d \<and> dt_le d b) s"

definition loc_from :: "series \<Rightarrow> datetime \<Rightarrow> series" where
  "loc_from s a = filter (\<lambda>(d, v). dt_le a d) s"

section \<open>The instance, the option dictionaries and the libraries\<close>

text \<open>
  The three option dictionaries are Python objects the instance holds by reference:
  the constructor stores the caller's dictionary itself and makes a new one only for
  \<^verbatim>\<open>None\<close>. The heap maps an address to the dictionary stored there.
\<close>

type_synonym addr = nat

record heap =
  store :: "addr \<Rightarrow> pydict"
  next_free :: addr

definition alloc :: "heap \<Rightarrow> addr \<times> heap" where
  "alloc h =
     (next_free h,
      h\<lparr>store := (store h)(next_free h := Map.empty), next_free := Suc (next_free h)\<rparr>)"

definition dict_set :: "heap \<Rightarrow> addr \<Rightarrow> string \<Rightarrow> pyval \<Rightarrow> heap" where
  "dict_set h a k v = h\<lparr>store := (store h)(a := (store h a)(k \<mapsto> v))\<rparr>"

text \<open>
  A fitted model is an object of one of the three libraries, named here by a number
  that the library's own functions interpret.
\<close>

datatype fitted = ArimaFit nat | EsFit nat | TbatsFit nat

text \<open>
  \<^verbatim>\<open>CandidateModel(error, fit_model, model_type, predictions)\<close>. The field
  \<open>cand_fit_model\<close> is the attribute \<^verbatim>\<open>fit_model\<close> of the candidate.
\<close>

record CandidateModel =
  error :: cell
  cand_fit_model :: "fitted option"
  model_type :: string
  predictions :: dataframe

text \<open>
  The error metric is one of the three names the constructor accepts; the attribute is
  assigned there only, after the check.
\<close>

datatype metric = Mase | Mse | Rmse

record autots =
  model_names :: "string list"
  error_metric :: metric
  is_seasonal :: bool
  seasonal_period :: "int list option"
  holdout_period :: int
  verbose :: bool
  auto_arima_args :: addr
  exponential_smoothing_args :: addr
  tbats_args :: addr
  data :: "dataframe option"
  training_data :: "dataframe option"
  testing_data :: "dataframe option"
  series_column_name :: "string option"
  exogenous :: "string list option"
  using_exogenous :: bool
  candidate_models :: "CandidateModel list"
  fit_model :: "fitted option"
  fit_model_type :: "string option"
  best_model_error :: "cell option"
  is_fitted :: bool

type_synonym state = "heap \<times> autots"

text \<open>
  What the source imports and this repository's files under \<^verbatim>\<open>src/\<close> do not hold:
  the validation helpers and error metrics of \<^verbatim>\<open>AutoTS.utils\<close>, whether a
  \<^verbatim>\<open>CandidateModel\<close> can be subscripted (\<^verbatim>\<open>candidate[0]\<close>), and the statistical
  libraries. Each is a parameter; a library call returns a value or raises, and an
  error metric can return NaN. \<open>sorted_long\<close> is what \<^verbatim>\<open>sorted\<close> returns for 64 or
  more candidates by their errors when one of the errors is NaN: CPython then merges
  several runs, which is not modelled.
\<close>

record libs =
  check_models :: "string list \<Rightarrow> py_error option"
  check_datetime_index :: "dataframe \<Rightarrow> py_error option"
  candidate_subscript :: bool
  mase :: "dataframe \<Rightarrow> string \<Rightarrow> string \<Rightarrow> py_error + cell"
  mse :: "dataframe \<Rightarrow> string \<Rightarrow> string \<Rightarrow> py_error + cell"
  rmse :: "dataframe \<Rightarrow> string \<Rightarrow> string \<Rightarrow> py_error + cell"
  auto_arima :: "series \<Rightarrow> bool \<Rightarrow> int \<Rightarrow> dataframe option \<Rightarrow> pydict \<Rightarrow> py_error + nat"
  arima_predict :: "nat \<Rightarrow> int \<Rightarrow> dataframe option \<Rightarrow> py_error + cell list"
  arima_predict_in_sample ::
    "nat \<Rightarrow> loc \<Rightarrow> loc option \<Rightarrow> dataframe option \<Rightarrow> py_error + cell list"
  arima_update :: "nat \<Rightarrow> series \<Rightarrow> py_error + nat"
  ExponentialSmoothing_fit :: "series \<Rightarrow> int option \<Rightarrow> pydict \<Rightarrow> py_error + nat"
  es_predict :: "nat \<Rightarrow> datetime \<Rightarrow> datetime \<Rightarrow> py_error + series"
  BATS :: "int list option \<Rightarrow> pydict \<Rightarrow> py_error + nat"
  bats_fit :: "nat \<Rightarrow> series \<Rightarrow> py_error + nat"
  tbats_forecast :: "nat \<Rightarrow> int \<Rightarrow> py_error + cell list"
  tbats_y_hat :: "nat \<Rightarrow> cell list"
  to_datetime :: "string \<Rightarrow> py_error + datetime"
  sorted_long :: "CandidateModel list \<Rightarrow> CandidateModel list"

section \<open>The constructor\<close>

datatype seasonal_arg = SeasonalNone | SeasonalInt int | SeasonalList "int list"

definition parse_metric :: "string \<Rightarrow> metric option" where
  "parse_metric m =
     (if m = ''mase'' then Some Mase else if m = ''mse'' then Some Mse
      else if m = ''rmse'' then Some Rmse else None)"

text \<open>Lines 46 to 51: an option dictionary that is \<^verbatim>\<open>None\<close> becomes a new dictionary.\<close>

definition fix_mutable :: "addr option \<Rightarrow> heap \<Rightarrow> addr \<times> heap" where
  "fix_mutable arg h = (case arg of None \<Rightarrow> alloc h | Some a \<Rightarrow> (a, h))"

definition init ::
  "libs \<Rightarrow> string list \<Rightarrow> string \<Rightarrow> seasonal_arg \<Rightarrow> int \<Rightarrow> bool \<Rightarrow>
   addr option \<Rightarrow> addr option \<Rightarrow> addr option \<Rightarrow> heap \<Rightarrow> py_error + state" where
  "init L names metric_name seasonal holdout verb aa es tb h0 =
     (let (a1, h1) = fix_mutable aa h0;
          (a2, h2) = fix_mutable es h1;
          (a3, h3) = fix_mutable tb h2
      in case check_models L names of
           Some e \<Rightarrow> Inl e
         | None \<Rightarrow>
            (case parse_metric (lower metric_name) of
               None \<Rightarrow> Inl (ValueError ''Error metric must be one of mase, mse, rmse'')
             | Some m \<Rightarrow>
                Inr (h3,
                  \<lparr>model_names = map lower names,
                   error_metric = m,
                   is_seasonal = (seasonal \<noteq> SeasonalNone),
                   seasonal_period =
                     (case seasonal of
                        SeasonalNone \<Rightarrow> None
                      | SeasonalInt p \<Rightarrow> Some [p]
                      | SeasonalList ps \<Rightarrow> Some ps),
                   holdout_period = holdout,
                   verbose = verb,
                   auto_arima_args = a1,
                   exponential_smoothing_args = a2,
                   tbats_args = a3,
                   data = None,
                   training_data = None,
                   testing_data = None,
                   series_column_name = None,
                   exogenous = None,
                   using_exogenous = False,
                   candidate_models = [],
                   fit_model = None,
                   fit_model_type = None,
                   best_model_error = None,
                   is_fitted = False\<rparr>)))"

section \<open>The fitters\<close>

text \<open>\<^verbatim>\<open>_error_metric\<close> (lines 286 to 299).\<close>

definition error_metric_fn ::
  "libs \<Rightarrow> autots \<Rightarrow> dataframe \<Rightarrow> string \<Rightarrow> string \<Rightarrow> py_error + cell" where
  "error_metric_fn L self d predictions_column actuals_column =
     (case error_metric self of
        Mase \<Rightarrow> mase L d predictions_column actuals_column
      | Mse \<Rightarrow> mse L d predictions_column actuals_column
      | Rmse \<Rightarrow> rmse L d predictions_column actuals_column)"

text \<open>\<^verbatim>\<open>_set_input_data\<close> (lines 301 to 306).\<close>

definition set_input_data :: "dataframe \<Rightarrow> string \<Rightarrow> autots \<Rightarrow> autots" where
  "set_input_data d col self =
     self\<lparr>data := Some d,
          training_data := Some (iloc_to d (- holdout_period self)),
          testing_data := Some (iloc_from d (- holdout_period self)),
          series_column_name := Some col\<rparr>"

text \<open>
  Reading an attribute that may still be \<^verbatim>\<open>None\<close>: \<^verbatim>\<open>frame[col]\<close>,
  \<^verbatim>\<open>frame[cols]\<close> and the frame itself.
\<close>

definition frame_of :: "dataframe option \<Rightarrow> py_error + dataframe" where
  "frame_of f = (case f of None \<Rightarrow> Inl (TypeError ''NoneType'') | Some df \<Rightarrow> Inr df)"

definition column_of :: "dataframe option \<Rightarrow> string option \<Rightarrow> py_error + series" where
  "column_of f col =
     bind_err (frame_of f) (\<lambda>df.
       case col of None \<Rightarrow> Inl (KeyError ''None'') | Some c \<Rightarrow> getitem df c)"

definition columns_of :: "dataframe option \<Rightarrow> string list option \<Rightarrow> py_error + dataframe" where
  "columns_of f cols =
     bind_err (frame_of f) (\<lambda>df.
       case cols of None \<Rightarrow> Inl (KeyError ''None'') | Some cs \<Rightarrow> getitem_list df cs)"

subsection \<open>auto-ARIMA (lines 134 to 197)\<close>

text \<open>Lines 143 to 158: the data, the exogenous frames and the seasonal period.\<close>

definition arima_prepare ::
  "autots \<Rightarrow> dataframe option \<Rightarrow> py_error + (dataframe option \<times> dataframe option \<times> int)" where
  "arima_prepare self model_data =
     bind_err
       (if using_exogenous self
        then bind_err (columns_of model_data (exogenous self)) (\<lambda>tr.
             bind_err (columns_of (testing_data self) (exogenous self)) (\<lambda>te.
               Inr (Some tr, Some te)))
        else Inr (None, None))
       (\<lambda>(train_exog, test_exog).
          bind_err (case seasonal_period self of None \<Rightarrow> Inr 1 | Some ps \<Rightarrow> py_index ps 0)
            (\<lambda>m. Inr (train_exog, test_exog, m)))"

text \<open>The call of \<^verbatim>\<open>auto_arima\<close>, written twice in the source (lines 161 and 176).\<close>

definition arima_call ::
  "libs \<Rightarrow> heap \<Rightarrow> autots \<Rightarrow> dataframe option \<Rightarrow> dataframe option \<Rightarrow> int \<Rightarrow> py_error + nat" where
  "arima_call L h self model_data train_exog m =
     bind_err (column_of model_data (series_column_name self)) (\<lambda>y.
       if kwargs_clash [''supress_warning'', ''seasonal'', ''m'', ''exogenous'']
            (store h (auto_arima_args self))
       then Inl (TypeError ''got multiple values for keyword argument'')
       else auto_arima L y (is_seasonal self) m train_exog (store h (auto_arima_args self)))"

text \<open>Lines 184 to 197: the test predictions, their error and the candidate.\<close>

definition arima_finish ::
  "libs \<Rightarrow> autots \<Rightarrow> bool \<Rightarrow> dataframe option \<Rightarrow> nat \<Rightarrow> py_error + CandidateModel" where
  "arima_finish L self use_full_dataset test_exog model =
     bind_err (column_of (testing_data self) (series_column_name self)) (\<lambda>actuals.
     bind_err (frame_of (testing_data self)) (\<lambda>test.
     bind_err (arima_predict L model (int (length (rows test))) test_exog) (\<lambda>preds.
     bind_err (DataFrame_series_array ''actuals'' actuals ''aa_test_predictions'' preds)
       (\<lambda>test_predictions.
     bind_err (error_metric_fn L self test_predictions ''aa_test_predictions'' ''actuals'')
       (\<lambda>test_error.
     bind_err
       (if \<not> use_full_dataset
        then bind_err (column_of (testing_data self) (series_column_name self))
               (arima_update L model)
        else Inr model)
       (\<lambda>model'.
          Inr \<lparr>error = test_error, cand_fit_model = Some (ArimaFit model'),
               model_type = ''auto_arima'', predictions = test_predictions\<rparr>))))))"

text \<open>
  The whole fitter. A \<open>ValueError\<close> of the first call is caught: the handler writes
  \<^verbatim>\<open>'seasonal_test': 'ch'\<close> into the option dictionary and calls \<^verbatim>\<open>auto_arima\<close>
  again, outside any \<^verbatim>\<open>try\<close>. (The warning of line 174 has no effect on the
  result.)
\<close>

definition fit_auto_arima :: "libs \<Rightarrow> bool \<Rightarrow> state \<Rightarrow> (py_error + CandidateModel) \<times> state" where
  "fit_auto_arima L use_full_dataset s =
     (let h = fst s; self = snd s;
          model_data = (if use_full_dataset then data self else training_data self)
      in case arima_prepare self model_data of
           Inl e \<Rightarrow> (Inl e, s)
         | Inr (train_exog, test_exog, m) \<Rightarrow>
            (case arima_call L h self model_data train_exog m of
               Inr model \<Rightarrow> (arima_finish L self use_full_dataset test_exog model, s)
             | Inl e \<Rightarrow>
                if is_ValueError e
                then (let h' = dict_set h (auto_arima_args self) ''seasonal_test'' (PyStr ''ch'')
                      in case arima_call L h' self model_data train_exog m of
                           Inl e2 \<Rightarrow> (Inl e2, (h', self))
                         | Inr model \<Rightarrow>
                            (arima_finish L self use_full_dataset test_exog model, (h', self)))
                else (Inl e, s)))"

subsection \<open>Exponential smoothing (lines 199 to 233)\<close>

text \<open>Lines 210 to 214: the defaults are written into the option dictionary.\<close>

definition es_defaults :: "heap \<Rightarrow> autots \<Rightarrow> heap" where
  "es_defaults h self =
     (let a = exponential_smoothing_args self;
          h1 = (if store h a ''trend'' = None then dict_set h a ''trend'' (PyStr ''add'') else h)
      in if store h1 a ''seasonal'' = None
         then dict_set h1 a ''seasonal''
                (if seasonal_period self \<noteq> None then PyStr ''add'' else PyNone)
         else h1)"

text \<open>Lines 216 to 233.\<close>

definition es_body :: "libs \<Rightarrow> heap \<Rightarrow> autots \<Rightarrow> dataframe option \<Rightarrow> py_error + CandidateModel" where
  "es_body L h self model_data =
     bind_err (case seasonal_period self of
                 None \<Rightarrow> Inr None
               | Some ps \<Rightarrow> bind_err (py_index ps 0) (\<lambda>p. Inr (Some p)))
       (\<lambda>es_seasonal_period.
     bind_err (column_of model_data (series_column_name self)) (\<lambda>y.
     bind_err
       (if kwargs_clash [''seasonal_periods''] (store h (exponential_smoothing_args self))
        then Inl (TypeError ''got multiple values for keyword argument'')
        else ExponentialSmoothing_fit L y es_seasonal_period
               (store h (exponential_smoothing_args self)))
       (\<lambda>model.
     bind_err (column_of (testing_data self) (series_column_name self)) (\<lambda>actuals.
     bind_err (frame_of (testing_data self)) (\<lambda>test.
     bind_err (py_index (df_index test) (- holdout_period self)) (\<lambda>first_date.
     bind_err (py_index (df_index test) (- 1)) (\<lambda>last_date.
     bind_err (es_predict L model first_date last_date) (\<lambda>preds.
     bind_err (DataFrame_two_series ''actuals'' actuals ''es_test_predictions'' preds)
       (\<lambda>test_predictions.
     bind_err (error_metric_fn L self test_predictions ''es_test_predictions'' ''actuals'')
       (\<lambda>err.
          Inr \<lparr>error = err, cand_fit_model = Some (EsFit model),
               model_type = ''exponential_smoothing'',
               predictions = test_predictions\<rparr>))))))))))"

definition fit_exponential_smoothing ::
  "libs \<Rightarrow> bool \<Rightarrow> state \<Rightarrow> (py_error + CandidateModel) \<times> state" where
  "fit_exponential_smoothing L use_full_dataset s =
     (let self = snd s;
          model_data = (if use_full_dataset then data self else training_data self);
          h' = es_defaults (fst s) self
      in (es_body L h' self model_data, (h', self)))"

subsection \<open>BATS (lines 235 to 266)\<close>

text \<open>Lines 253 to 257: the defaults are written into the option dictionary.\<close>

definition tbats_defaults :: "heap \<Rightarrow> autots \<Rightarrow> heap" where
  "tbats_defaults h self =
     (let a = tbats_args self;
          h1 = (if store h a ''n_jobs'' = None then dict_set h a ''n_jobs'' (PyInt 1) else h)
      in if store h1 a ''use_arma_errors'' = None
         then dict_set h1 a ''use_arma_errors'' (PyBool False)
         else h1)"

text \<open>Lines 259 to 266.\<close>

definition tbats_body :: "libs \<Rightarrow> heap \<Rightarrow> autots \<Rightarrow> dataframe option \<Rightarrow> py_error + CandidateModel" where
  "tbats_body L h self model_data =
     bind_err
       (if kwargs_clash [''seasonal_periods'', ''use_box_cox''] (store h (tbats_args self))
        then Inl (TypeError ''got multiple values for keyword argument'')
        else BATS L (seasonal_period self) (store h (tbats_args self)))
       (\<lambda>model.
     bind_err (column_of model_data (series_column_name self)) (\<lambda>y.
     bind_err (bats_fit L model y) (\<lambda>fitted_model.
     bind_err (column_of (testing_data self) (series_column_name self)) (\<lambda>actuals.
     bind_err (frame_of (testing_data self)) (\<lambda>test.
     bind_err (tbats_forecast L fitted_model (int (length (rows test)))) (\<lambda>preds.
     bind_err (DataFrame_series_array ''actuals'' actuals ''tb_test_predictions'' preds)
       (\<lambda>test_predictions.
     bind_err (error_metric_fn L self test_predictions ''tb_test_predictions'' ''actuals'')
       (\<lambda>err.
          Inr \<lparr>error = err, cand_fit_model = Some (TbatsFit fitted_model),
               model_type = ''tbats'', predictions = test_predictions\<rparr>))))))))"

definition fit_tbats ::
  "libs \<Rightarrow> bool \<Rightarrow> bool \<Rightarrow> state \<Rightarrow> (py_error + CandidateModel) \<times> state" where
  "fit_tbats L use_full_dataset use_simple_model s =
     (let self = snd s;
          model_data = (if use_full_dataset then data self else training_data self);
          h' = tbats_defaults (fst s) self
      in (tbats_body L h' self model_data, (h', self)))"

subsection \<open>The ensemble (lines 268 to 284)\<close>

text \<open>
  \<^verbatim>\<open>_fit_ensemble\<close> does two things. \<open>fit_ensemble\<close> is the candidate it returns, or
  the exception it raises; \<open>fit_ensemble_writes\<close>, after it, is what the call leaves
  in the instance. The ensemble step of \<^verbatim>\<open>fit\<close> takes both.
\<close>

definition fit_ensemble :: "libs \<Rightarrow> autots \<Rightarrow> py_error + CandidateModel" where
  "fit_ensemble L self =
     (let model_predictions = map predictions (candidate_models self)
      in bind_err
           (py_reduce (\<lambda>left right.
                bind_err (drop_column right ''actuals'') (\<lambda>r. Inr (merge left r)))
              model_predictions)
           (\<lambda>all_predictions.
              let predictions_columns =
                    filter (\<lambda>c. endswith c ''predictions'') (columns all_predictions)
              in bind_err (getitem_list all_predictions predictions_columns) (\<lambda>sel.
                 let all_predictions' =
                       setitem all_predictions ''en_test_predictions'' (mean_columns sel)
                 in bind_err (error_metric_fn L self all_predictions'
                                ''en_test_predictions'' ''actuals'') (\<lambda>err.
                    bind_err (getitem_list all_predictions'
                                [''actuals'', ''en_test_predictions'']) (\<lambda>tbl.
                      Inr \<lparr>error = err, cand_fit_model = None, model_type = ''ensemble'',
                           predictions = tbl\<rparr>)))))"

text \<open>
  \<^verbatim>\<open>reduce\<close> over two or more tables returns the new frame \<^verbatim>\<open>pd.merge\<close> made, and
  line 280 adds the column to it. Over one table \<^verbatim>\<open>reduce\<close> returns that table, the
  candidate's own, and line 280 writes the column into it: \<open>fit_ensemble_writes\<close> is
  the instance after that write, which comes before the error metric is called.
\<close>

definition fit_ensemble_writes :: "autots \<Rightarrow> autots" where
  "fit_ensemble_writes self =
     (case candidate_models self of
        [] \<Rightarrow> self
      | c # others \<Rightarrow>
          (if others = []
           then (case getitem_list (predictions c)
                        (filter (\<lambda>n. endswith n ''predictions'') (columns (predictions c))) of
                   Inl e \<Rightarrow> self
                 | Inr sel \<Rightarrow>
                     self\<lparr>candidate_models :=
                       [c\<lparr>predictions :=
                            setitem (predictions c) ''en_test_predictions''
                              (mean_columns sel)\<rparr>]\<rparr>)
           else self))"

section \<open>fit (lines 84 to 132)\<close>

datatype exog_names = NoExog | ExogName string | ExogNames "string list"

definition then_step ::
  "(state \<Rightarrow> (py_error + unit) \<times> state) \<Rightarrow> (state \<Rightarrow> (py_error + 'a) \<times> state) \<Rightarrow>
   state \<Rightarrow> (py_error + 'a) \<times> state" where
  "then_step f g s = (case f s of (Inl e, s') \<Rightarrow> (Inl e, s') | (Inr u, s') \<Rightarrow> g s')"

text \<open>
  One block \<^verbatim>\<open>if name in self.model_names: self.candidate_models.append(fitter())\<close>
  (lines 105 to 116). The echo under \<^verbatim>\<open>verbose\<close> reads the candidate's error and has
  no other effect.
\<close>

definition fit_step ::
  "string \<Rightarrow> (state \<Rightarrow> (py_error + CandidateModel) \<times> state) \<Rightarrow>
   state \<Rightarrow> (py_error + unit) \<times> state" where
  "fit_step name fitter s =
     (if name \<in> set (model_names (snd s))
      then (case fitter s of
              (Inl e, s') \<Rightarrow> (Inl e, s')
            | (Inr c, s') \<Rightarrow>
                (Inr (), (fst s', (snd s')\<lparr>candidate_models := candidate_models (snd s') @ [c]\<rparr>)))
      else (Inr (), s))"

text \<open>
  Lines 117 to 122. The test \<^verbatim>\<open>self.candidate_models is None\<close> is never true of a
  list, so the \<open>ValueError\<close> of line 119 has no branch here. The echo under
  \<^verbatim>\<open>verbose\<close> subscripts the candidate (\<^verbatim>\<open>candidate_models[-1][0]\<close>).
\<close>

definition fit_ensemble_step :: "libs \<Rightarrow> state \<Rightarrow> (py_error + unit) \<times> state" where
  "fit_ensemble_step L s =
     (if ''ensemble'' \<in> set (model_names (snd s))
      then (let self1 = fit_ensemble_writes (snd s)
            in case fit_ensemble L (snd s) of
                 Inl e \<Rightarrow> (Inl e, (fst s, self1))
               | Inr c \<Rightarrow>
                  (let s' = (fst s, self1\<lparr>candidate_models := candidate_models self1 @ [c]\<rparr>)
                   in if verbose (snd s) \<and> \<not> candidate_subscript L
                      then (Inl (TypeError ''CandidateModel object is not subscriptable''), s')
                      else (Inr (), s')))
      else (Inr (), s))"

text \<open>
  Line 128, \<^verbatim>\<open>sorted(self.candidate_models, key=lambda x: x.error)\<close>. The keys are
  floats. When none of them is NaN, \<^verbatim>\<open><\<close> is a linear order on them and a stable
  ascending sort has one result, which \<open>sort_key\<close> gives. With a NaN among them the
  result is what the algorithm makes of the comparisons.
\<close>

definition sorted_by_error :: "libs \<Rightarrow> CandidateModel list \<Rightarrow> CandidateModel list" where
  "sorted_by_error L cs =
     (if None \<notin> set (map error cs) then sort_key (\<lambda>c. the (error c)) cs
      else if length cs < 64 then list_sort_short (\<lambda>x y. cell_lt (error x) (error y)) cs
      else sorted_long L cs)"

text \<open>Lines 128 to 132; \<^verbatim>\<open>candidate_models[0]\<close> of an empty list raises.\<close>

definition fit_select :: "libs \<Rightarrow> state \<Rightarrow> (py_error + unit) \<times> state" where
  "fit_select L s =
     (let self1 = (snd s)\<lparr>candidate_models := sorted_by_error L (candidate_models (snd s))\<rparr>
      in case candidate_models self1 of
           [] \<Rightarrow> (Inl (IndexError ''list index out of range''), (fst s, self1))
         | best # rest \<Rightarrow>
            (Inr (), (fst s,
               self1\<lparr>best_model_error := Some (error best),
                     fit_model := cand_fit_model best,
                     fit_model_type := Some (model_type best),
                     is_fitted := True\<rparr>)))"

text \<open>Lines 95 to 103: the data and the names of the exogenous columns are stored.\<close>

definition fit_inputs :: "dataframe \<Rightarrow> string \<Rightarrow> exog_names \<Rightarrow> autots \<Rightarrow> autots" where
  "fit_inputs d col exog self =
     (let self1 = set_input_data d col self;
          exog_list = (case exog of
                         NoExog \<Rightarrow> None
                       | ExogName c \<Rightarrow> Some [c]
                       | ExogNames cs \<Rightarrow> Some cs)
      in case exog_list of
           None \<Rightarrow> self1
         | Some cs \<Rightarrow> self1\<lparr>using_exogenous := True, exogenous := Some cs\<rparr>)"

text \<open>Lines 94 to 122: the index check, the inputs and the fitters, in the source's order.\<close>

definition fit_candidates ::
  "libs \<Rightarrow> dataframe \<Rightarrow> string \<Rightarrow> exog_names \<Rightarrow> state \<Rightarrow> (py_error + unit) \<times> state" where
  "fit_candidates L d col exog s =
     (case check_datetime_index L d of
        Some e \<Rightarrow> (Inl e, s)
      | None \<Rightarrow>
          then_step (fit_step ''auto_arima'' (fit_auto_arima L True))
            (then_step (fit_step ''exponential_smoothing'' (fit_exponential_smoothing L True))
            (then_step (fit_step ''tbats'' (fit_tbats L True True))
            (fit_ensemble_step L)))
            (fst s, fit_inputs d col exog (snd s)))"

definition fit ::
  "libs \<Rightarrow> dataframe \<Rightarrow> string \<Rightarrow> exog_names \<Rightarrow> state \<Rightarrow> (py_error + unit) \<times> state" where
  "fit L d col exog s = then_step (fit_candidates L d col exog) (fit_select L) s"

section \<open>The predictors\<close>

text \<open>
  A method of a library object called on \<^verbatim>\<open>None\<close> or on an object of another library
  raises; the model gives that failure the class \<open>AttributeError\<close>.
\<close>

definition as_arima :: "fitted option \<Rightarrow> py_error + nat" where
  "as_arima f =
     (case f of Some (ArimaFit m) \<Rightarrow> Inr m
      | _ \<Rightarrow> Inl (AttributeError ''fit_model is not an ARIMA model''))"

definition as_es :: "fitted option \<Rightarrow> py_error + nat" where
  "as_es f =
     (case f of Some (EsFit m) \<Rightarrow> Inr m
      | _ \<Rightarrow> Inl (AttributeError ''fit_model is not an exponential smoothing model''))"

definition as_tbats :: "fitted option \<Rightarrow> py_error + nat" where
  "as_tbats f =
     (case f of Some (TbatsFit m) \<Rightarrow> Inr m
      | _ \<Rightarrow> Inl (AttributeError ''fit_model is not a BATS model''))"

text \<open>\<^verbatim>\<open>self.data.index\<close>, an \<open>AttributeError\<close> while \<^verbatim>\<open>self.data\<close> is \<^verbatim>\<open>None\<close>.\<close>

definition data_index :: "autots \<Rightarrow> py_error + datetime list" where
  "data_index self =
     (case data self of
        None \<Rightarrow> Inl (AttributeError ''NoneType object has no attribute index'')
      | Some d \<Rightarrow> Inr (df_index d))"

subsection \<open>auto-ARIMA (lines 308 to 331)\<close>

definition predict_auto_arima ::
  "libs \<Rightarrow> autots \<Rightarrow> datetime \<Rightarrow> datetime \<Rightarrow> datetime \<Rightarrow> dataframe option \<Rightarrow>
   py_error + series" where
  "predict_auto_arima L self start_date end_date last_data_date exog =
     bind_err (data_index self) (\<lambda>idx.
     bind_err (py_index idx (- 1)) (\<lambda>last.
     bind_err
       (if dt_less start_date last \<and> dt_le end_date last
        then bind_err (as_arima (fit_model self)) (\<lambda>m.
             bind_err (get_loc idx start_date) (\<lambda>loc_start.
             bind_err (get_loc idx end_date) (\<lambda>loc_end.
               arima_predict_in_sample L m loc_start (Some loc_end) exog)))
        else if dt_less start_date last \<and> dt_less last end_date
        then (let num_extra_months = months_between last_data_date end_date
              in bind_err (as_arima (fit_model self)) (\<lambda>m.
                 bind_err (get_loc idx start_date) (\<lambda>loc_start.
                 bind_err (arima_predict_in_sample L m loc_start None None)
                   (\<lambda>in_sample_preds.
                 bind_err (arima_predict L m num_extra_months None)
                   (\<lambda>out_of_sample_preds.
                   Inr (in_sample_preds @ out_of_sample_preds))))))
        else (let months_to_predict = months_between start_date end_date + 1
              in bind_err (as_arima (fit_model self)) (\<lambda>m.
                   arima_predict L m months_to_predict exog)))
       (\<lambda>preds. Series_of_array preds (date_range_MS start_date end_date))))"

subsection \<open>Exponential smoothing (lines 333 to 335)\<close>

definition predict_exponential_smoothing ::
  "libs \<Rightarrow> autots \<Rightarrow> datetime \<Rightarrow> datetime \<Rightarrow> py_error + series" where
  "predict_exponential_smoothing L self start_date end_date =
     bind_err (as_es (fit_model self)) (\<lambda>m. es_predict L m start_date end_date)"

subsection \<open>BATS (lines 337 to 360)\<close>

definition predict_tbats ::
  "libs \<Rightarrow> autots \<Rightarrow> datetime \<Rightarrow> datetime \<Rightarrow> datetime \<Rightarrow> py_error + series" where
  "predict_tbats L self start_date end_date last_data_date =
     bind_err (as_tbats (fit_model self)) (\<lambda>m.
     bind_err (data_index self) (\<lambda>idx.
     bind_err (py_index idx 0) (\<lambda>first.
     bind_err (py_index idx (- 1)) (\<lambda>last.
     bind_err (Series_of_array (tbats_y_hat L m) (date_range_MS first last))
       (\<lambda>in_sample_preds.
     bind_err (py_index (map fst in_sample_preds) (- 1)) (\<lambda>in_sample_last.
       if dt_less start_date in_sample_last \<and> dt_le end_date in_sample_last
       then Inr (Series_reindex (loc_between in_sample_preds start_date end_date)
                   (date_range_MS start_date end_date))
       else if dt_less start_date last \<and> dt_less last end_date
       then (let num_extra_months = months_between last_data_date end_date;
                 in_sample_portion = loc_from in_sample_preds start_date
             in bind_err (tbats_forecast L m num_extra_months) (\<lambda>out_of_sample_portion.
                  Series_of_array (map snd in_sample_portion @ out_of_sample_portion)
                    (date_range_MS start_date end_date)))
       else (let months_to_predict = months_between start_date end_date + 1
             in bind_err (tbats_forecast L m months_to_predict) (\<lambda>preds.
                  Series_of_array preds (date_range_MS start_date end_date)))))))))"

subsection \<open>The ensemble (lines 362 to 402)\<close>

text \<open>
  Lines 370 to 372 (and 378 to 380, 386 to 388): the loop assigns \<^verbatim>\<open>self.fit_model\<close>
  for every candidate of the type, so the last such candidate stays.
\<close>

definition select_handle :: "string \<Rightarrow> autots \<Rightarrow> autots" where
  "select_handle t self =
     foldl (\<lambda>acc c. if model_type c = t then acc\<lparr>fit_model := cand_fit_model c\<rparr> else acc)
       self (candidate_models self)"

text \<open>One block \<^verbatim>\<open>if name in self.model_names: ...\<close> of the ensemble predictor.\<close>

definition ensemble_member ::
  "string \<Rightarrow> string \<Rightarrow> (autots \<Rightarrow> py_error + series) \<Rightarrow>
   (string \<times> series) list \<Rightarrow> autots \<Rightarrow> (py_error + (string \<times> series) list) \<times> autots" where
  "ensemble_member name label predictor acc self =
     (if name \<in> set (model_names self)
      then (let self' = select_handle name self
            in case predictor self' of
                 Inl e \<Rightarrow> (Inl e, self')
               | Inr preds \<Rightarrow> (Inr (acc @ [(label, preds)]), self'))
      else (Inr acc, self))"

text \<open>A named series as the one-column frame \<^verbatim>\<open>pd.merge\<close> makes of it.\<close>

definition series_frame :: "string \<times> series \<Rightarrow> dataframe" where
  "series_frame p = \<lparr>columns = [fst p], rows = map (\<lambda>(d, v). (d, [v])) (snd p)\<rparr>"

text \<open>
  Lines 393 to 396. \<^verbatim>\<open>reduce\<close> of one series returns the series itself, and a series
  has no axis \<^verbatim>\<open>'columns'\<close> to take the mean along.
\<close>

definition ensemble_mean :: "(string \<times> series) list \<Rightarrow> py_error + dataframe" where
  "ensemble_mean ensemble_model_predictions =
     (case ensemble_model_predictions of
        [p] \<Rightarrow> Inl (ValueError ''No axis named columns for object type Series'')
      | ps \<Rightarrow>
         bind_err (py_reduce (\<lambda>left right. Inr (merge left right)) (map series_frame ps))
           (\<lambda>all_predictions.
              Inr (setitem all_predictions ''en_test_predictions''
                     (mean_columns all_predictions))))"

definition predict_ensemble ::
  "libs \<Rightarrow> autots \<Rightarrow> datetime \<Rightarrow> datetime \<Rightarrow> datetime \<Rightarrow> dataframe option \<Rightarrow>
   (py_error + series) \<times> autots" where
  "predict_ensemble L self start_date end_date last_data_date exog =
     (case ensemble_member ''auto_arima'' ''auto_arima_predictions''
             (\<lambda>s. predict_auto_arima L s start_date end_date last_data_date exog) [] self of
        (Inl e, self1) \<Rightarrow> (Inl e, self1)
      | (Inr acc1, self1) \<Rightarrow>
     (case ensemble_member ''exponential_smoothing'' ''exponential_smoothing_predictions''
             (\<lambda>s. predict_exponential_smoothing L s start_date end_date) acc1 self1 of
        (Inl e, self2) \<Rightarrow> (Inl e, self2)
      | (Inr acc2, self2) \<Rightarrow>
     (case ensemble_member ''tbats'' ''tbats_predictions''
             (\<lambda>s. predict_tbats L s start_date end_date last_data_date) acc2 self2 of
        (Inl e, self3) \<Rightarrow> (Inl e, self3)
      | (Inr acc3, self3) \<Rightarrow>
     (case ensemble_mean acc3 of
        Inl e \<Rightarrow> (Inl e, self3)
      | Inr all_predictions \<Rightarrow>
         (bind_err (getitem all_predictions ''en_test_predictions'') (\<lambda>col.
            Series_of_array (map snd col) (date_range_MS start_date end_date)),
          self3\<lparr>fit_model := None, fit_model_type := Some ''ensemble''\<rparr>)))))"

section \<open>predict (lines 404 to 469)\<close>

datatype date_arg = DateStr string | Date datetime | NotADate

datatype exog_value = ExogNone | ExogFrame dataframe | ExogSeries string series

text \<open>Lines 422 to 429.\<close>

definition as_datetime :: "libs \<Rightarrow> date_arg \<Rightarrow> string \<Rightarrow> py_error + datetime" where
  "as_datetime L a msg =
     (case a of
        DateStr str \<Rightarrow> to_datetime L str
      | Date d \<Rightarrow> Inr d
      | NotADate \<Rightarrow> Inl (TypeError msg))"

text \<open>Lines 421 to 457: the checks after the fitted-state check.\<close>

definition predict_checks ::
  "libs \<Rightarrow> autots \<Rightarrow> date_arg \<Rightarrow> date_arg \<Rightarrow> exog_value \<Rightarrow>
   py_error + (datetime \<times> datetime \<times> datetime \<times> dataframe option)" where
  "predict_checks L self start_arg end_arg exog =
     bind_err (as_datetime L start_arg ''start_date must be a str or datetime-like object'')
       (\<lambda>start_date.
     bind_err (as_datetime L end_arg ''end_date must be a str or datetime-like object'')
       (\<lambda>end_date.
       if dt_less end_date start_date
       then Inl (ValueError ''end_date must come after start_date'')
       else
     bind_err (data_index self) (\<lambda>idx.
     bind_err (py_index idx (- 1)) (\<lambda>last_date.
       if dt_less (plus_one_month last_date) start_date
       then Inl (ValueError ''start_date must be no more than 1 month past the last date'')
       else
     bind_err (py_index idx 0) (\<lambda>first_date.
       if dt_less start_date first_date
       then Inl (ValueError ''start_date must be later than the earliest date'')
       else if using_exogenous self \<and> dt_less last_date end_date \<and> exog = ExogNone
       then Inl (ValueError ''Exogenous regressor(s) must be provided'')
       else Inr (start_date, end_date, last_date,
              (case exog of
                 ExogNone \<Rightarrow> None
               | ExogFrame f \<Rightarrow> Some f
               | ExogSeries name ser \<Rightarrow> Some (series_frame (name, ser)))))))))"

text \<open>Lines 459 to 469; a type tag that matches none of the four returns \<^verbatim>\<open>None\<close>.\<close>

definition returned :: "py_error + series \<Rightarrow> py_error + series option" where
  "returned r = bind_err r (\<lambda>x. Inr (Some x))"

definition predict_dispatch ::
  "libs \<Rightarrow> datetime \<Rightarrow> datetime \<Rightarrow> datetime \<Rightarrow> dataframe option \<Rightarrow> state \<Rightarrow>
   (py_error + series option) \<times> state" where
  "predict_dispatch L start_date end_date last_date exog s =
     (let self = snd s
      in if fit_model_type self = Some ''auto_arima''
         then (returned (predict_auto_arima L self start_date end_date last_date exog), s)
         else if fit_model_type self = Some ''exponential_smoothing''
         then (returned (predict_exponential_smoothing L self start_date end_date), s)
         else if fit_model_type self = Some ''tbats''
         then (returned (predict_tbats L self start_date end_date last_date), s)
         else if fit_model_type self = Some ''ensemble''
         then (case predict_ensemble L self start_date end_date last_date exog of
                 (r, self') \<Rightarrow> (returned r, (fst s, self')))
         else (Inr None, s))"

definition predict ::
  "libs \<Rightarrow> date_arg \<Rightarrow> date_arg \<Rightarrow> exog_value \<Rightarrow> state \<Rightarrow>
   (py_error + series option) \<times> state" where
  "predict L start_arg end_arg exog s =
     (if \<not> is_fitted (snd s)
      then (Inl (AttributeError ''Model must be fitted to be able to make predictions''), s)
      else (case predict_checks L (snd s) start_arg end_arg exog of
              Inl e \<Rightarrow> (Inl e, s)
            | Inr (start_date, end_date, last_date, exog') \<Rightarrow>
                predict_dispatch L start_date end_date last_date exog' s))"

section \<open>A small instance\<close>

text \<open>
  Three months of data, a holdout of one month, and libraries that answer with fixed
  values: every metric scores 1, and \<^verbatim>\<open>auto_arima\<close> raises a \<open>ValueError\<close> unless
  it is called with \<^verbatim>\<open>seasonal_test='ch'\<close>. \<open>ex_state names\<close> is the instance the
  constructor returns for the model names \<open>names\<close>.
\<close>

definition ex_month :: "int \<Rightarrow> int \<Rightarrow> datetime" where
  "ex_month y m = \<lparr>year = y, month = m, day = 1, tod = 0\<rparr>"

definition ex_data :: dataframe where
  "ex_data = \<lparr>columns = [''y''],
     rows = [(ex_month 2020 1, [Some 1]), (ex_month 2020 2, [Some 2]), (ex_month 2020 3, [Some 4])]\<rparr>"

definition ex_libs :: libs where
  "ex_libs =
     \<lparr>check_models = (\<lambda>names. None),
      check_datetime_index = (\<lambda>d. None),
      candidate_subscript = True,
      mase = (\<lambda>d p a. Inr (Some 1)),
      mse = (\<lambda>d p a. Inr (Some 1)),
      rmse = (\<lambda>d p a. Inr (Some 1)),
      auto_arima = (\<lambda>y seasonal m exog args.
         if args ''seasonal_test'' = Some (PyStr ''ch'') then Inr 0
         else Inl (ValueError ''shapes not aligned'')),
      arima_predict = (\<lambda>m n exog. Inr (replicate (nat n) (Some 10))),
      arima_predict_in_sample = (\<lambda>m a b exog. Inr []),
      arima_update = (\<lambda>m y. Inr m),
      ExponentialSmoothing_fit = (\<lambda>y p args. Inr 1),
      es_predict = (\<lambda>m a b. Inr (map (\<lambda>d. (d, Some 3)) (date_range_MS a b))),
      BATS = (\<lambda>p args. Inr 2),
      bats_fit = (\<lambda>m y. Inr m),
      tbats_forecast = (\<lambda>m n. Inr (replicate (nat n) (Some 5))),
      tbats_y_hat = (\<lambda>m. [Some 1, Some 2, Some 4]),
      to_datetime = (\<lambda>str. Inl (ValueError ''unknown string format'')),
      sorted_long = (\<lambda>cs. cs)\<rparr>"

definition ex_heap :: heap where
  "ex_heap = \<lparr>store = (\<lambda>a. Map.empty), next_free = 0\<rparr>"

definition ex_state :: "string list \<Rightarrow> state" where
  "ex_state names =
     (ex_heap\<lparr>next_free := 3\<rparr>,
      \<lparr>model_names = names, error_metric = Mse, is_seasonal = False, seasonal_period = None,
       holdout_period = 1, verbose = False, auto_arima_args = 0,
       exponential_smoothing_args = 1, tbats_args = 2, data = None, training_data = None,
       testing_data = None, series_column_name = None, exogenous = None,
       using_exogenous = False, candidate_models = [], fit_model = None,
       fit_model_type = None, best_model_error = None, is_fitted = False\<rparr>)"

section \<open>Sequences of calls\<close>

text \<open>
  A caller's use of one instance is a list of \<^verbatim>\<open>fit\<close> and \<^verbatim>\<open>predict\<close> calls.
  \<open>do_call\<close> gives whether the call raised and the state it left; \<open>run\<close> is the
  state after the whole list; \<open>every_fit_raised\<close> says that each \<^verbatim>\<open>fit\<close> call of
  the list raised.
\<close>

datatype call = CallFit dataframe string exog_names | CallPredict date_arg date_arg exog_value

definition do_call :: "libs \<Rightarrow> call \<Rightarrow> state \<Rightarrow> bool \<times> state" where
  "do_call L c s =
     (case c of
        CallFit d col exog \<Rightarrow> (isl (fst (fit L d col exog s)), snd (fit L d col exog s))
      | CallPredict a b exog \<Rightarrow>
          (isl (fst (predict L a b exog s)), snd (predict L a b exog s)))"

fun run :: "libs \<Rightarrow> call list \<Rightarrow> state \<Rightarrow> state" where
  "run L [] s = s"
| "run L (c # cs) s = run L cs (snd (do_call L c s))"

fun is_fit :: "call \<Rightarrow> bool" where
  "is_fit (CallFit d col exog) = True"
| "is_fit (CallPredict a b exog) = False"

fun every_fit_raised :: "libs \<Rightarrow> call list \<Rightarrow> state \<Rightarrow> bool" where
  "every_fit_raised L [] s = True"
| "every_fit_raised L (c # cs) s =
     ((is_fit c \<longrightarrow> fst (do_call L c s)) \<and> every_fit_raised L cs (snd (do_call L c s)))"

text \<open>The libraries of the small instance, with a BATS fit that raises.\<close>

definition ex_libs_failing :: libs where
  "ex_libs_failing = ex_libs\<lparr>bats_fit := (\<lambda>m y. Inl (OtherError ''did not converge''))\<rparr>"

text \<open>The libraries of the small instance, with an \<^verbatim>\<open>auto_arima\<close> that raises both times.\<close>

definition ex_libs_arima_failing :: libs where
  "ex_libs_arima_failing =
     ex_libs\<lparr>auto_arima := (\<lambda>y seasonal m exog args.
        if args ''seasonal_test'' = Some (PyStr ''ch'') then Inl (ValueError ''ch test failed'')
        else Inl (ValueError ''shapes not aligned''))\<rparr>"

text \<open>
  The libraries of the small instance, with an error metric that scores the auto-ARIMA
  predictions 2 and the others 1 and is undefined (NaN) on the exponential-smoothing
  predictions.
\<close>

definition ex_libs_nan :: libs where
  "ex_libs_nan =
     ex_libs\<lparr>mse := (\<lambda>d p a.
        if p = ''aa_test_predictions'' then Inr (Some 2)
        else if p = ''es_test_predictions'' then Inr None
        else Inr (Some 1))\<rparr>"

section \<open>The configuration and the option dictionaries\<close>

text \<open>
  The attributes the constructor sets from its arguments and no method assigns: the
  model names, the error metric, the seasonality flag and periods, the holdout length,
  the verbosity and the references to the three option dictionaries.
\<close>

definition configuration ::
  "autots \<Rightarrow> string list \<times> metric \<times> bool \<times> int list option \<times> int \<times> bool \<times> addr \<times> addr \<times> addr" where
  "configuration self =
     (model_names self, error_metric self, is_seasonal self, seasonal_period self,
      holdout_period self, verbose self,
      auto_arima_args self, exponential_smoothing_args self, tbats_args self)"

text \<open>
  The first call of \<^verbatim>\<open>auto_arima\<close> in a call of \<^verbatim>\<open>fit\<close> (line 161, with the
  evaluation of its arguments): what the call gives, and \<open>None\<close> when \<^verbatim>\<open>fit\<close> does
  not come to it, because the index check raised, \<^verbatim>\<open>'auto_arima'\<close> is not among the
  model names, or lines 143 to 158 raised. \<open>arima_retried\<close> says that this call raised
  a \<open>ValueError\<close>.
\<close>

definition first_auto_arima_call ::
  "libs \<Rightarrow> dataframe \<Rightarrow> string \<Rightarrow> exog_names \<Rightarrow> state \<Rightarrow> (py_error + nat) option" where
  "first_auto_arima_call L d col exog s =
     (let self = fit_inputs d col exog (snd s)
      in if check_datetime_index L d = None \<and> ''auto_arima'' \<in> set (model_names self)
         then (case arima_prepare self (data self) of
                 Inl e \<Rightarrow> None
               | Inr (train_exog, test_exog, m) \<Rightarrow>
                   Some (arima_call L (fst s) self (data self) train_exog m))
         else None)"

definition arima_retried :: "libs \<Rightarrow> dataframe \<Rightarrow> string \<Rightarrow> exog_names \<Rightarrow> state \<Rightarrow> bool" where
  "arima_retried L d col exog s =
     (case first_auto_arima_call L d col exog s of
        None \<Rightarrow> False
      | Some r \<Rightarrow> (case r of Inl e \<Rightarrow> is_ValueError e | Inr model \<Rightarrow> False))"

text \<open>
  The writes into an option dictionary that the fitters make: at address \<open>a\<close> and key
  \<open>k\<close> the entry \<open>old\<close> becomes \<open>new\<close>. The write of \<^verbatim>\<open>'seasonal_test'\<close> is one of
  them only with the flag \<open>retried\<close>, and the defaults of a fitter only when its name is
  among the model names. \<open>options_after_fit\<close> says that a heap differs from an earlier
  one by such writes only, and \<open>fit_frame\<close> adds that the configuration is the same.
\<close>

definition option_change ::
  "bool \<Rightarrow> autots \<Rightarrow> addr \<Rightarrow> string \<Rightarrow> pyval option \<Rightarrow> pyval option \<Rightarrow> bool" where
  "option_change retried self a k old new \<longleftrightarrow>
     (retried \<and> a = auto_arima_args self \<and> k = ''seasonal_test'' \<and>
        new = Some (PyStr ''ch'')) \<or>
     (''exponential_smoothing'' \<in> set (model_names self) \<and>
        a = exponential_smoothing_args self \<and> old = None \<and> k = ''trend'' \<and>
        new = Some (PyStr ''add'')) \<or>
     (''exponential_smoothing'' \<in> set (model_names self) \<and>
        a = exponential_smoothing_args self \<and> old = None \<and> k = ''seasonal'' \<and>
        new = Some (if seasonal_period self = None then PyNone else PyStr ''add'')) \<or>
     (''tbats'' \<in> set (model_names self) \<and>
        a = tbats_args self \<and> old = None \<and> k = ''n_jobs'' \<and> new = Some (PyInt 1)) \<or>
     (''tbats'' \<in> set (model_names self) \<and>
        a = tbats_args self \<and> old = None \<and> k = ''use_arma_errors'' \<and>
        new = Some (PyBool False))"

definition options_after_fit :: "bool \<Rightarrow> autots \<Rightarrow> heap \<Rightarrow> heap \<Rightarrow> bool" where
  "options_after_fit retried self h h' \<longleftrightarrow>
     next_free h' = next_free h \<and>
     (\<forall>a k. store h' a k = store h a k \<or>
            option_change retried self a k (store h a k) (store h' a k))"

definition fit_frame :: "bool \<Rightarrow> state \<Rightarrow> state \<Rightarrow> bool" where
  "fit_frame retried s s' \<longleftrightarrow>
     configuration (snd s') = configuration (snd s) \<and>
     options_after_fit retried (snd s) (fst s) (fst s')"

text \<open>
  The small instance, constructed with an exponential-smoothing option dictionary of
  the caller's, stored at address 7.
\<close>

definition ex_caller_heap :: heap where
  "ex_caller_heap =
     \<lparr>store = (\<lambda>a. if a = 7 then [''damped'' \<mapsto> PyBool True] else Map.empty), next_free = 8\<rparr>"

definition ex_caller_state :: state where
  "ex_caller_state =
     (\<lparr>store = (store ex_caller_heap)(8 := Map.empty, 9 := Map.empty), next_free = 10\<rparr>,
      \<lparr>model_names = [''exponential_smoothing''], error_metric = Mse, is_seasonal = False,
       seasonal_period = None, holdout_period = 1, verbose = False, auto_arima_args = 8,
       exponential_smoothing_args = 7, tbats_args = 9, data = None, training_data = None,
       testing_data = None, series_column_name = None, exogenous = None,
       using_exogenous = False, candidate_models = [], fit_model = None,
       fit_model_type = None, best_model_error = None, is_fitted = False\<rparr>)"

text \<open>
  The small instance with auto-ARIMA only, constructed with an option dictionary of the
  caller's that names the seasonal test, and libraries whose \<^verbatim>\<open>auto_arima\<close> returns
  at the first call.
\<close>

definition ex_libs_arima_returning :: libs where
  "ex_libs_arima_returning = ex_libs\<lparr>auto_arima := (\<lambda>y seasonal m exog args. Inr 0)\<rparr>"

definition ex_ocsb_state :: state where
  "ex_ocsb_state =
     (\<lparr>store = (\<lambda>a. if a = 7 then [''seasonal_test'' \<mapsto> PyStr ''ocsb''] else Map.empty),
       next_free = 10\<rparr>,
      (snd ex_caller_state)\<lparr>model_names := [''auto_arima''], auto_arima_args := 7,
                             exponential_smoothing_args := 8\<rparr>)"

section \<open>Test-prediction tables\<close>

text \<open>
  The table a fitter builds: the column \<^verbatim>\<open>actuals\<close> and one prediction column \<open>p\<close>
  over an index, with the cells of the two columns given by the label.
\<close>

definition two_columns ::
  "datetime list \<Rightarrow> string \<Rightarrow> (datetime \<Rightarrow> cell) \<Rightarrow> (datetime \<Rightarrow> cell) \<Rightarrow> dataframe" where
  "two_columns idx p a v =
     \<lparr>columns = [''actuals'', p], rows = map (\<lambda>d. (d, [a d, v d])) idx\<rparr>"

text \<open>
  For a second \<^verbatim>\<open>fit\<close> on one instance: libraries whose BATS forecast depends on the
  length of the fitted series, a series one month longer that ends in the same month,
  and the state the first \<^verbatim>\<open>fit\<close> leaves.
\<close>

definition ex_libs_refit :: libs where
  "ex_libs_refit =
     ex_libs\<lparr>bats_fit := (\<lambda>m y. Inr (length y)),
             tbats_forecast := (\<lambda>m n. Inr (replicate (nat n) (Some (real m))))\<rparr>"

definition ex_data_longer :: dataframe where
  "ex_data_longer = \<lparr>columns = [''y''],
     rows = [(ex_month 2019 12, [Some 0]), (ex_month 2020 1, [Some 1]),
             (ex_month 2020 2, [Some 2]), (ex_month 2020 3, [Some 4])]\<rparr>"

definition ex_first_fit :: state where
  "ex_first_fit = snd (fit ex_libs_refit ex_data ''y'' NoExog (ex_state [''tbats'', ''ensemble'']))"

text \<open>The small instance holding one candidate, of the BATS fitter.\<close>

definition ex_one_candidate :: autots where
  "ex_one_candidate =
     (snd (ex_state [''tbats'', ''ensemble'']))\<lparr>candidate_models :=
        [\<lparr>error = Some 1, cand_fit_model = Some (TbatsFit 2), model_type = ''tbats'',
          predictions = \<lparr>columns = [''actuals'', ''tb_test_predictions''],
                         rows = [(ex_month 2020 3, [Some 4, Some 5])]\<rparr>\<rparr>]\<rparr>"

section \<open>Fitted instances for predict\<close>

text \<open>
  The small instance after \<^verbatim>\<open>fit\<close>, with BATS and with auto-ARIMA as its only
  model. The BATS model's in-sample values are 1, 2 and 4 and its forecasts are 5; for
  auto-ARIMA the libraries below give 7 as the in-sample value, and the forecasts are 10.
\<close>

definition ex_tbats_fitted :: state where
  "ex_tbats_fitted = snd (fit ex_libs ex_data ''y'' NoExog (ex_state [''tbats'']))"

definition ex_libs_in_sample :: libs where
  "ex_libs_in_sample = ex_libs\<lparr>arima_predict_in_sample := (\<lambda>m a b exog. Inr [Some 7])\<rparr>"

definition ex_arima_fitted :: state where
  "ex_arima_fitted = snd (fit ex_libs_in_sample ex_data ''y'' NoExog (ex_state [''auto_arima'']))"

text \<open>
  The small instance with BATS as its only model, fitted on data with a second column
  that is named as the exogenous regressor.
\<close>

definition ex_data_exog :: dataframe where
  "ex_data_exog = \<lparr>columns = [''y'', ''x''],
     rows = [(ex_month 2020 1, [Some 1, Some 7]), (ex_month 2020 2, [Some 2, Some 8]),
             (ex_month 2020 3, [Some 4, Some 9])]\<rparr>"

definition ex_exog_fitted :: state where
  "ex_exog_fitted = snd (fit ex_libs ex_data_exog ''y'' (ExogName ''x'') (ex_state [''tbats'']))"

section \<open>Evaluating the small instance\<close>

lemma ex_init:
  "init ex_libs names ''MSE'' SeasonalNone 1 False None None None ex_heap
     = Inr (ex_state (map lower names))"
  by (simp add: init_def fix_mutable_def alloc_def ex_heap_def ex_libs_def
      parse_metric_def lower_def lower_char_def ex_state_def fun_eq_iff)

lemmas ex_eval =
  fit_candidates_def fit_inputs_def then_step_def fit_step_def fit_ensemble_step_def
  fit_exponential_smoothing_def es_defaults_def es_body_def
  fit_tbats_def tbats_defaults_def tbats_body_def
  fit_auto_arima_def arima_prepare_def arima_call_def arima_finish_def
  fit_ensemble_def fit_ensemble_writes_def py_reduce_def drop_column_def merge_def getitem_list_def setitem_def
  mean_columns_def mean_skipna_def endswith_def
  set_input_data_def iloc_to_def iloc_from_def py_slice_to_def py_slice_from_def
  frame_of_def column_of_def columns_of_def getitem_def row_cell_def bind_err_def
  py_index_def df_index_def kwargs_clash_def dict_set_def error_metric_fn_def
  DataFrame_series_array_def DataFrame_two_series_def
  date_range_MS_def rollforward_def months_between_def month_start_plus_def
  sorted_by_error_def ex_state_def ex_libs_def ex_data_def ex_heap_def ex_month_def Let_def

lemma ex_es_tbats_returns:
  "fst (fit_candidates ex_libs ex_data ''y'' NoExog
          (ex_state [''exponential_smoothing'', ''tbats''])) = Inr ()"
  by (simp add: ex_eval)

lemma ex_es_tbats_candidates:
  "candidate_models (snd (snd (fit_candidates ex_libs ex_data ''y'' NoExog
          (ex_state [''exponential_smoothing'', ''tbats''])))) =
     [\<lparr>error = Some 1, cand_fit_model = Some (EsFit 1), model_type = ''exponential_smoothing'',
       predictions = \<lparr>columns = [''actuals'', ''es_test_predictions''],
                      rows = [(ex_month 2020 3, [Some 4, Some 3])]\<rparr>\<rparr>,
      \<lparr>error = Some 1, cand_fit_model = Some (TbatsFit 2), model_type = ''tbats'',
       predictions = \<lparr>columns = [''actuals'', ''tb_test_predictions''],
                      rows = [(ex_month 2020 3, [Some 4, Some 5])]\<rparr>\<rparr>]"
  by (simp add: ex_eval)

lemma sorted_by_error_no_nan:
  "None \<notin> set (map error cs) \<Longrightarrow> sorted_by_error L cs = sort_key (\<lambda>c. the (error c)) cs"
  by (simp add: sorted_by_error_def)

lemmas sort_eval =
  sorted_by_error_def list_sort_short_def count_run_def cell_lt_def bisect.simps

text \<open>
  The model of \<^verbatim>\<open>list.sort\<close> on lists with a NaN, where \<^verbatim>\<open>sorted\<close> of CPython gives
  \<^verbatim>\<open>[2.0, nan, 0.5, 1.0]\<close>, \<^verbatim>\<open>[1.0, 2.0, 3.0, nan]\<close> and
  \<^verbatim>\<open>[1.0, nan, 0.1, 0.2, 0.5, 3.0]\<close>.
\<close>

lemma list_sort_short_nan:
  "list_sort_short cell_lt [Some 2, None, Some 1, Some (1/2)] = [Some 2, None, Some (1/2), Some 1]"
  "list_sort_short cell_lt [Some 3, Some 2, None, Some 1] = [Some 1, Some 2, Some 3, None]"
  "list_sort_short cell_lt [Some 1, None, Some (1/2), Some (1/5), Some 3, Some (1/10)] =
     [Some 1, None, Some (1/10), Some (1/5), Some (1/2), Some 3]"
  by (simp_all add: sort_eval)

section \<open>Selection of the winner\<close>

lemma find_hd_filter: "filter P xs \<noteq> [] \<Longrightarrow> find P xs = Some (hd (filter P xs))"
  by (induction xs) auto

lemma sort_key_hd_min:
  fixes f :: "'a \<Rightarrow> real"
  assumes "xs \<noteq> []"
  shows "f (hd (sort_key f xs)) = Min (f ` set xs)"
proof -
  let ?ys = "sort_key f xs"
  have ne: "?ys \<noteq> []" using assms by (metis length_0_conv length_sort)
  have s: "sorted (map f ?ys)" by simp
  have "\<forall>y \<in> set ?ys. f (hd ?ys) \<le> f y"
    using s ne by (cases ?ys) auto
  hence le: "\<forall>y \<in> set xs. f (hd ?ys) \<le> f y" by simp
  have mem: "hd ?ys \<in> set xs" using ne by (metis hd_in_set set_sort)
  show ?thesis
    by (rule sym, rule Min_eqI) (use le mem in auto)
qed

lemma sort_key_hd_first:
  fixes f :: "'a \<Rightarrow> real"
  assumes "xs \<noteq> []"
  shows "find (\<lambda>c. f c = Min (f ` set xs)) xs = Some (hd (sort_key f xs))"
proof -
  let ?ys = "sort_key f xs" and ?P = "\<lambda>c. f c = Min (f ` set xs)"
  have ne: "?ys \<noteq> []" using assms by (metis length_0_conv length_sort)
  have hdP: "?P (hd ?ys)" using sort_key_hd_min[OF assms] .
  have st: "filter ?P ?ys = filter ?P xs"
    using sort_key_stable[of f "Min (f ` set xs)" xs] by simp
  have "hd (filter ?P ?ys) = hd ?ys" using ne hdP by (cases ?ys) auto
  moreover have "filter ?P ?ys \<noteq> []" using ne hdP by (cases ?ys) auto
  ultimately show ?thesis using find_hd_filter[of ?P xs] st by simp
qed

lemma fit_select_nonempty:
  assumes "candidate_models (snd s) \<noteq> []"
    and "None \<notin> set (map error (candidate_models (snd s)))"
  shows "fit_select L s =
     (Inr (), (fst s,
        (snd s)\<lparr>candidate_models := sort_key (\<lambda>c. the (error c)) (candidate_models (snd s)),
                best_model_error :=
                  Some (error (hd (sort_key (\<lambda>c. the (error c)) (candidate_models (snd s))))),
                fit_model :=
                  cand_fit_model (hd (sort_key (\<lambda>c. the (error c)) (candidate_models (snd s)))),
                fit_model_type :=
                  Some (model_type (hd (sort_key (\<lambda>c. the (error c)) (candidate_models (snd s))))),
                is_fitted := True\<rparr>))"
proof -
  let ?ys = "sort_key (\<lambda>c. the (error c)) (candidate_models (snd s))"
  have "?ys \<noteq> []"
    using assms(1) by (metis length_0_conv length_sort)
  then obtain b r where "?ys = b # r"
    by (cases ?ys) auto
  thus ?thesis by (simp add: fit_select_def Let_def sorted_by_error_no_nan[OF assms(2)])
qed

lemma error_not_nan:
  assumes "None \<notin> set (map error cs)" and "c \<in> set cs"
  shows "\<exists>x. error c = Some x"
proof -
  have "error c \<in> set (map error cs)" using assms(2) by simp
  with assms(1) have "error c \<noteq> None" by metis
  thus ?thesis by blast
qed

lemma filter_error_the:
  assumes "None \<notin> set (map error cs)"
  shows "filter (\<lambda>c. error c = k) cs =
           (case k of None \<Rightarrow> [] | Some x \<Rightarrow> filter (\<lambda>c. the (error c) = x) cs)"
proof (cases k)
  case None
  have "\<forall>c \<in> set cs. error c \<noteq> None" using error_not_nan[OF assms] by fastforce
  hence "filter (\<lambda>c. error c = None) cs = []" by (simp add: filter_empty_conv)
  with None show ?thesis by simp
next
  case (Some x)
  have "(error c = Some x) = (the (error c) = x)" if "c \<in> set cs" for c
  proof -
    from error_not_nan[OF assms that] obtain y where "error c = Some y" by blast
    thus ?thesis by simp
  qed
  hence "filter (\<lambda>c. error c = Some x) cs = filter (\<lambda>c. the (error c) = x) cs"
    by (intro filter_cong) auto
  with Some show ?thesis by simp
qed

lemma sort_key_the_error_stable:
  assumes "None \<notin> set (map error cs)"
  shows "filter (\<lambda>c. error c = k) (sort_key (\<lambda>c. the (error c)) cs) =
         filter (\<lambda>c. error c = k) cs"
proof -
  have "None \<notin> set (map error (sort_key (\<lambda>c. the (error c)) cs))" using assms by simp
  from filter_error_the[OF this] filter_error_the[OF assms] show ?thesis
    by (cases k) (simp_all add: sort_key_stable)
qed

lemma nothing_below_min:
  assumes "None \<notin> set (map error cs)" and "c \<in> set cs"
  shows "\<not> cell_lt (error c) (Some (Min ((\<lambda>c. the (error c)) ` set cs)))"
proof -
  from error_not_nan[OF assms] obtain x where x: "error c = Some x" by blast
  have "Min ((\<lambda>c. the (error c)) ` set cs) \<le> the (error c)"
    using assms(2) by (intro Min_le) auto
  with x show ?thesis by (simp add: cell_lt_def)
qed

lemma ex_nan_candidates:
  "fit_candidates ex_libs_nan ex_data ''y'' NoExog
     (ex_state [''auto_arima'', ''exponential_smoothing'', ''tbats'']) =
   (Inr (),
    (dict_set (fst (ex_state [])) 0 ''seasonal_test'' (PyStr ''ch'')
       \<lparr>store := (store (dict_set (fst (ex_state [])) 0 ''seasonal_test'' (PyStr ''ch'')))
          (1 := [''trend'' \<mapsto> PyStr ''add'', ''seasonal'' \<mapsto> PyNone],
           2 := [''n_jobs'' \<mapsto> PyInt 1, ''use_arma_errors'' \<mapsto> PyBool False])\<rparr>,
     (snd (ex_state [''auto_arima'', ''exponential_smoothing'', ''tbats'']))
       \<lparr>data := Some ex_data,
        training_data := Some (iloc_to ex_data (- 1)),
        testing_data := Some (iloc_from ex_data (- 1)),
        series_column_name := Some ''y'',
        candidate_models :=
          [\<lparr>error = Some 2, cand_fit_model = Some (ArimaFit 0), model_type = ''auto_arima'',
            predictions = \<lparr>columns = [''actuals'', ''aa_test_predictions''],
                           rows = [(ex_month 2020 3, [Some 4, Some 10])]\<rparr>\<rparr>,
           \<lparr>error = None, cand_fit_model = Some (EsFit 1),
            model_type = ''exponential_smoothing'',
            predictions = \<lparr>columns = [''actuals'', ''es_test_predictions''],
                           rows = [(ex_month 2020 3, [Some 4, Some 3])]\<rparr>\<rparr>,
           \<lparr>error = Some 1, cand_fit_model = Some (TbatsFit 2), model_type = ''tbats'',
            predictions = \<lparr>columns = [''actuals'', ''tb_test_predictions''],
                           rows = [(ex_month 2020 3, [Some 4, Some 5])]\<rparr>\<rparr>]\<rparr>))"
  by (simp add: ex_libs_nan_def ex_eval fun_eq_iff)

text \<open>
  C1, as the claim states it, fails: an error is a float and can be NaN, and
  \<^verbatim>\<open>sorted\<close> does not order a list that holds one. Here the three fitters return the
  errors 2, NaN and 1 in this order. \<^verbatim>\<open>fit\<close> returns and leaves the candidates in
  the order they were produced, which is not ascending; the retained winner is the
  auto-ARIMA candidate with the error 2, and the BATS candidate has the error 1, which
  is below it.
\<close>

theorem fit_winner_minimum_counterexample:
  "fst (fit ex_libs_nan ex_data ''y'' NoExog
          (ex_state [''auto_arima'', ''exponential_smoothing'', ''tbats''])) = Inr () \<and>
   map error (candidate_models (snd (snd (fit ex_libs_nan ex_data ''y'' NoExog
          (ex_state [''auto_arima'', ''exponential_smoothing'', ''tbats''])))))
     = [Some 2, None, Some 1] \<and>
   map model_type (candidate_models (snd (snd (fit ex_libs_nan ex_data ''y'' NoExog
          (ex_state [''auto_arima'', ''exponential_smoothing'', ''tbats''])))))
     = [''auto_arima'', ''exponential_smoothing'', ''tbats''] \<and>
   best_model_error (snd (snd (fit ex_libs_nan ex_data ''y'' NoExog
          (ex_state [''auto_arima'', ''exponential_smoothing'', ''tbats''])))) = Some (Some 2) \<and>
   fit_model_type (snd (snd (fit ex_libs_nan ex_data ''y'' NoExog
          (ex_state [''auto_arima'', ''exponential_smoothing'', ''tbats''])))) = Some ''auto_arima'' \<and>
   cell_lt (Some 1) (Some 2)"
  by (simp add: fit_def then_step_def ex_nan_candidates fit_select_def sort_eval)

text \<open>
  C1, amended. When the fitters of a \<^verbatim>\<open>fit\<close> call have returned and left at least
  one candidate, and no candidate's error is NaN, \<^verbatim>\<open>fit\<close> returns; the candidates
  are then sorted ascending by error, the sort keeps the candidates of equal error in
  the order they were produced, and the retained error is the minimum of all candidates'
  errors, so that no candidate's error is below it. The retained candidate is the first
  produced among those of minimal error, and its error, fitted handle and model type are
  the ones stored.
\<close>

theorem fit_winner_is_first_minimum:
  assumes cand: "fit_candidates L d col exog s = (Inr (), s1)"
    and ne: "candidate_models (snd s1) \<noteq> []"
    and no_nan: "None \<notin> set (map error (candidate_models (snd s1)))"
  shows "\<exists>self'. fit L d col exog s = (Inr (), (fst s1, self')) \<and>
           is_fitted self' \<and>
           candidate_models self' =
             sort_key (\<lambda>c. the (error c)) (candidate_models (snd s1)) \<and>
           sorted (map (\<lambda>c. the (error c)) (candidate_models self')) \<and>
           (\<forall>k. filter (\<lambda>c. error c = k) (candidate_models self') =
                filter (\<lambda>c. error c = k) (candidate_models (snd s1))) \<and>
           best_model_error self' =
             Some (Some (Min ((\<lambda>c. the (error c)) ` set (candidate_models (snd s1))))) \<and>
           (\<forall>c \<in> set (candidate_models (snd s1)).
              \<not> cell_lt (error c) (error (hd (candidate_models self')))) \<and>
           find (\<lambda>c. error c = Some (Min ((\<lambda>c. the (error c)) ` set (candidate_models (snd s1)))))
             (candidate_models (snd s1)) = Some (hd (candidate_models self')) \<and>
           best_model_error self' = Some (error (hd (candidate_models self'))) \<and>
           fit_model self' = cand_fit_model (hd (candidate_models self')) \<and>
           fit_model_type self' = Some (model_type (hd (candidate_models self')))"
proof -
  let ?cs = "candidate_models (snd s1)"
  let ?f = "\<lambda>c. the (error c)"
  let ?ys = "sort_key ?f ?cs"
  have f: "fit L d col exog s = fit_select L s1"
    by (simp add: fit_def then_step_def cand)
  have ys: "?ys \<noteq> []" using ne by (metis length_0_conv length_sort)
  hence "hd ?ys \<in> set ?cs" by (metis hd_in_set set_sort)
  from error_not_nan[OF no_nan this] obtain x where x: "error (hd ?ys) = Some x" by blast
  have m: "?f (hd ?ys) = Min (?f ` set ?cs)" by (rule sort_key_hd_min[OF ne])
  have e: "error (hd ?ys) = Some (Min (?f ` set ?cs))" using m x by simp
  have st: "filter (\<lambda>c. error c = k) ?ys = filter (\<lambda>c. error c = k) ?cs" for k
    by (rule sort_key_the_error_stable[OF no_nan])
  have "filter (\<lambda>c. error c = Some (Min (?f ` set ?cs))) ?ys \<noteq> []"
    using ys e by (cases ?ys) auto
  moreover have "hd (filter (\<lambda>c. error c = Some (Min (?f ` set ?cs))) ?ys) = hd ?ys"
    using ys e by (cases ?ys) auto
  ultimately have fi: "find (\<lambda>c. error c = Some (Min (?f ` set ?cs))) ?cs = Some (hd ?ys)"
    using find_hd_filter[of "\<lambda>c. error c = Some (Min (?f ` set ?cs))" ?cs] st by simp
  have nb: "\<forall>c \<in> set ?cs. \<not> cell_lt (error c) (error (hd ?ys))"
    unfolding e using nothing_below_min[OF no_nan] by blast
  show ?thesis
    unfolding f fit_select_nonempty[OF ne no_nan]
    using e fi nb st by simp
qed

theorem fit_winner_is_first_minimum_witness:
  "fst (fit ex_libs ex_data ''y'' NoExog (ex_state [''exponential_smoothing'', ''tbats'']))
     = Inr () \<and>
   best_model_error (snd (snd (fit ex_libs ex_data ''y'' NoExog
     (ex_state [''exponential_smoothing'', ''tbats''])))) = Some (Some 1) \<and>
   fit_model_type (snd (snd (fit ex_libs ex_data ''y'' NoExog
     (ex_state [''exponential_smoothing'', ''tbats''])))) = Some ''exponential_smoothing''"
proof -
  let ?s = "ex_state [''exponential_smoothing'', ''tbats'']"
  let ?r = "fit_candidates ex_libs ex_data ''y'' NoExog ?s"
  have c: "?r = (Inr (), snd ?r)"
    using ex_es_tbats_returns by (cases ?r) simp
  have ne: "candidate_models (snd (snd ?r)) \<noteq> []"
    by (simp add: ex_es_tbats_candidates)
  have nn: "None \<notin> set (map error (candidate_models (snd (snd ?r))))"
    by (simp add: ex_es_tbats_candidates)
  from fit_winner_is_first_minimum[OF c ne nn] obtain self' where
    f: "fit ex_libs ex_data ''y'' NoExog ?s = (Inr (), (fst (snd ?r), self'))"
    and b: "best_model_error self' =
              Some (Some (Min ((\<lambda>c. the (error c)) ` set (candidate_models (snd (snd ?r))))))"
    and w: "find (\<lambda>c. error c =
                Some (Min ((\<lambda>c. the (error c)) ` set (candidate_models (snd (snd ?r))))))
             (candidate_models (snd (snd ?r))) = Some (hd (candidate_models self'))"
    and t: "fit_model_type self' = Some (model_type (hd (candidate_models self')))"
    by blast
  have "hd (candidate_models self') = hd (candidate_models (snd (snd ?r)))"
    using w by (simp add: ex_es_tbats_candidates)
  with b t f show ?thesis by (simp add: ex_es_tbats_candidates)
qed

section \<open>The fitted-state check\<close>

text \<open>
  C2. On an instance that is not fitted, \<^verbatim>\<open>predict\<close> raises the state error for
  every pair of date arguments and every exogenous argument, also for arguments that
  are not dates or that no later check would accept, and it leaves the instance as it
  was.
\<close>

theorem predict_unfitted_state_error:
  assumes "\<not> is_fitted (snd s)"
  shows "predict L start_arg end_arg exog s =
           (Inl (AttributeError ''Model must be fitted to be able to make predictions''), s)"
  using assms by (simp add: predict_def)

theorem predict_unfitted_state_error_witness:
  "\<not> is_fitted (snd (ex_state [''tbats''])) \<and>
   predict ex_libs NotADate (DateStr ''never'') ExogNone (ex_state [''tbats'']) =
     (Inl (AttributeError ''Model must be fitted to be able to make predictions''),
      ex_state [''tbats''])"
proof -
  have u: "\<not> is_fitted (snd (ex_state [''tbats'']))" by (simp add: ex_state_def)
  show ?thesis using u predict_unfitted_state_error[OF u] by simp
qed

section \<open>What fit leaves unchanged\<close>

lemma fit_auto_arima_self: "snd (snd (fit_auto_arima L u s)) = snd s"
  by (simp add: fit_auto_arima_def Let_def split: sum.splits prod.splits)

lemma fit_exponential_smoothing_self: "snd (snd (fit_exponential_smoothing L u s)) = snd s"
  by (simp add: fit_exponential_smoothing_def Let_def)

lemma fit_tbats_self: "snd (snd (fit_tbats L u b s)) = snd s"
  by (simp add: fit_tbats_def Let_def)

lemma fit_step_field:
  assumes "\<And>x c. g (x\<lparr>candidate_models := c\<rparr>) = g x"
    and "\<And>s. snd (snd (f s)) = snd s"
  shows "g (snd (snd (fit_step n f s))) = g (snd s)"
  using assms(2)[of s]
  by (cases "f s") (auto simp: fit_step_def assms(1) split: sum.splits)

lemma fit_ensemble_writes_field:
  assumes "\<And>x c. g (x\<lparr>candidate_models := c\<rparr>) = g x"
  shows "g (fit_ensemble_writes self) = g self"
  by (simp add: fit_ensemble_writes_def assms split: list.splits sum.splits)

lemma fit_ensemble_step_field:
  assumes "\<And>x c. g (x\<lparr>candidate_models := c\<rparr>) = g x"
  shows "g (snd (snd (fit_ensemble_step L s))) = g (snd s)"
  by (auto simp: fit_ensemble_step_def Let_def assms fit_ensemble_writes_field[of g, OF assms]
      split: sum.splits)

lemma then_step_field:
  assumes "\<And>s. g (snd (snd (f1 s))) = g (snd s)"
    and "\<And>s. g (snd (snd (f2 s))) = g (snd s)"
  shows "g (snd (snd (then_step f1 f2 s))) = g (snd s)"
proof -
  obtain r s' where Pair: "f1 s = (r, s')" by (cases "f1 s") auto
  show ?thesis
  proof (cases r)
    case (Inl e)
    with Pair assms(1)[of s] show ?thesis by (simp add: then_step_def)
  next
    case (Inr u)
    with Pair assms(1)[of s] assms(2)[of s'] show ?thesis by (simp add: then_step_def)
  qed
qed

lemma fit_candidates_field:
  assumes c: "\<And>x c. g (x\<lparr>candidate_models := c\<rparr>) = g x"
    and d: "\<And>x a b c e. g (x\<lparr>data := a, training_data := b, testing_data := c,
                               series_column_name := e\<rparr>) = g x"
    and e: "\<And>x a b. g (x\<lparr>using_exogenous := a, exogenous := b\<rparr>) = g x"
  shows "g (snd (snd (fit_candidates L df col exog s))) = g (snd s)"
proof -
  have steps: "g (snd (snd (then_step (fit_step ''auto_arima'' (fit_auto_arima L True))
            (then_step (fit_step ''exponential_smoothing'' (fit_exponential_smoothing L True))
            (then_step (fit_step ''tbats'' (fit_tbats L True True))
            (fit_ensemble_step L))) t))) = g (snd t)" for t
    by (intro then_step_field fit_step_field fit_ensemble_step_field c
        fit_auto_arima_self fit_exponential_smoothing_self fit_tbats_self)
  show ?thesis
    by (cases "check_datetime_index L df"; cases exog)
       (simp_all add: fit_candidates_def fit_inputs_def Let_def steps set_input_data_def d e)
qed

lemma fit_select_raises:
  "fit_select L s = (Inl e, s') \<Longrightarrow>
    s' = (fst s, (snd s)\<lparr>candidate_models := sorted_by_error L (candidate_models (snd s))\<rparr>)"
  by (auto simp: fit_select_def Let_def split: list.splits)

lemma fit_select_returns:
  "fit_select L s = (Inr u, s') \<Longrightarrow> is_fitted (snd s')"
  by (auto simp: fit_select_def Let_def split: list.splits)

lemma fit_raises_is_fitted:
  assumes "fit L d col exog s = (Inl e, s')"
  shows "is_fitted (snd s') = is_fitted (snd s)"
proof -
  have k: "is_fitted (snd (snd (fit_candidates L d col exog s))) = is_fitted (snd s)"
    by (rule fit_candidates_field) simp_all
  obtain r s1 where Pair: "fit_candidates L d col exog s = (r, s1)"
    by (cases "fit_candidates L d col exog s") auto
  show ?thesis
  proof (cases r)
    case (Inl e1)
    with Pair assms k show ?thesis by (simp add: fit_def then_step_def)
  next
    case (Inr u)
    with Pair assms have "fit_select L s1 = (Inl e, s')" by (simp add: fit_def then_step_def)
    from fit_select_raises[OF this] Pair k show ?thesis by simp
  qed
qed

lemma fit_returns_is_fitted:
  assumes "fit L d col exog s = (Inr u, s')"
  shows "is_fitted (snd s')"
  using assms
  by (cases "fit_candidates L d col exog s")
     (auto simp: fit_def then_step_def split: sum.splits dest: fit_select_returns)

lemma predict_not_fitted:
  "\<not> is_fitted (snd s) \<Longrightarrow>
     predict L a b exog s =
       (Inl (AttributeError ''Model must be fitted to be able to make predictions''), s)"
  by (simp add: predict_def)

lemma init_not_fitted:
  "init L names metric_name seasonal holdout verb aa es tb h0 = Inr s0 \<Longrightarrow> \<not> is_fitted (snd s0)"
  by (auto simp: init_def Let_def split: prod.splits option.splits)

lemma do_call_not_fitted:
  assumes "\<not> is_fitted (snd s)" and "is_fit c \<longrightarrow> fst (do_call L c s)"
  shows "\<not> is_fitted (snd (snd (do_call L c s)))"
proof (cases c)
  case (CallFit d col exog)
  obtain r s' where f: "fit L d col exog s = (r, s')" by (cases "fit L d col exog s") auto
  with CallFit assms(2) obtain e where "r = Inl e" by (cases r) (auto simp: do_call_def)
  with f fit_raises_is_fitted[of L d col exog s e s'] assms(1) CallFit
  show ?thesis by (simp add: do_call_def)
next
  case (CallPredict a b exog)
  with assms(1) show ?thesis by (simp add: do_call_def predict_not_fitted)
qed

lemma run_not_fitted:
  "\<not> is_fitted (snd s) \<Longrightarrow> every_fit_raised L cs s \<Longrightarrow> \<not> is_fitted (snd (run L cs s))"
proof (induction cs arbitrary: s)
  case Nil
  then show ?case by simp
next
  case (Cons c cs)
  from Cons.prems have "\<not> is_fitted (snd (snd (do_call L c s)))"
    by (intro do_call_not_fitted) auto
  with Cons show ?case by simp
qed

text \<open>
  C10. A \<^verbatim>\<open>fit\<close> call that raises leaves \<^verbatim>\<open>is_fitted\<close> as it was, and one that
  returns leaves it true: the flag is assigned in the last statement only. So on an
  instance made by the constructor, after any calls among which every \<^verbatim>\<open>fit\<close>
  raised, the flag is still false and \<^verbatim>\<open>predict\<close> raises the state error. The
  raising \<^verbatim>\<open>fit\<close> of the example below has by then assigned \<^verbatim>\<open>data\<close> and appended
  the candidate of the fitter that ran before the failing one.
\<close>

theorem is_fitted_only_after_returning_fit:
  "(fit L d col exog s = (Inl e, s') \<longrightarrow> is_fitted (snd s') = is_fitted (snd s)) \<and>
   (fit L d col exog s = (Inr u, s') \<longrightarrow> is_fitted (snd s')) \<and>
   (init L names metric_name seasonal holdout verb aa es tb h0 = Inr s0 \<and>
    every_fit_raised L cs s0 \<longrightarrow>
      \<not> is_fitted (snd (run L cs s0)) \<and>
      predict L start_arg end_arg ex (run L cs s0) =
        (Inl (AttributeError ''Model must be fitted to be able to make predictions''),
         run L cs s0))"
  using fit_raises_is_fitted[of L d col exog s e s'] fit_returns_is_fitted[of L d col exog s u s']
    run_not_fitted[of s0 L cs] init_not_fitted[of L names metric_name seasonal holdout verb aa es tb h0 s0]
    predict_not_fitted[of "run L cs s0" L start_arg end_arg ex]
  by blast

lemma ex_init_failing:
  "init ex_libs_failing names ''MSE'' SeasonalNone 1 False None None None ex_heap
     = Inr (ex_state (map lower names))"
  by (simp add: init_def fix_mutable_def alloc_def ex_heap_def ex_libs_def ex_libs_failing_def
      parse_metric_def lower_def lower_char_def ex_state_def fun_eq_iff)

lemma ex_failing_fit:
  "fst (fit ex_libs_failing ex_data ''y'' NoExog (ex_state [''exponential_smoothing'', ''tbats'']))
     = Inl (OtherError ''did not converge'') \<and>
   data (snd (snd (fit ex_libs_failing ex_data ''y'' NoExog
     (ex_state [''exponential_smoothing'', ''tbats''])))) = Some ex_data \<and>
   map model_type (candidate_models (snd (snd (fit ex_libs_failing ex_data ''y'' NoExog
     (ex_state [''exponential_smoothing'', ''tbats''])))))  = [''exponential_smoothing'']"
  by (simp add: fit_def ex_libs_failing_def ex_eval)

theorem is_fitted_only_after_returning_fit_witness:
  "fst (fit ex_libs_failing ex_data ''y'' NoExog
          (ex_state [''exponential_smoothing'', ''tbats''])) = Inl (OtherError ''did not converge'') \<and>
   data (snd (ex_state [''exponential_smoothing'', ''tbats''])) = None \<and>
   candidate_models (snd (ex_state [''exponential_smoothing'', ''tbats''])) = [] \<and>
   data (snd (snd (fit ex_libs_failing ex_data ''y'' NoExog
     (ex_state [''exponential_smoothing'', ''tbats''])))) = Some ex_data \<and>
   map model_type (candidate_models (snd (snd (fit ex_libs_failing ex_data ''y'' NoExog
     (ex_state [''exponential_smoothing'', ''tbats''])))))  = [''exponential_smoothing''] \<and>
   predict ex_libs_failing (Date (ex_month 2020 4)) (Date (ex_month 2020 4)) ExogNone
     (snd (fit ex_libs_failing ex_data ''y'' NoExog
        (ex_state [''exponential_smoothing'', ''tbats'']))) =
     (Inl (AttributeError ''Model must be fitted to be able to make predictions''),
      snd (fit ex_libs_failing ex_data ''y'' NoExog
        (ex_state [''exponential_smoothing'', ''tbats''])))"
proof -
  let ?s0 = "ex_state [''exponential_smoothing'', ''tbats'']"
  let ?cs = "[CallFit ex_data ''y'' NoExog]"
  have i: "init ex_libs_failing [''exponential_smoothing'', ''tbats''] ''MSE'' SeasonalNone 1
             False None None None ex_heap = Inr ?s0"
    by (simp add: ex_init_failing lower_def lower_char_def)
  have r: "every_fit_raised ex_libs_failing ?cs ?s0"
    using ex_failing_fit by (simp add: do_call_def)
  have run: "run ex_libs_failing ?cs ?s0 = snd (fit ex_libs_failing ex_data ''y'' NoExog ?s0)"
    by (simp add: do_call_def)
  from is_fitted_only_after_returning_fit[of ex_libs_failing ex_data "''y''" NoExog ?s0 _ _ _
      "[''exponential_smoothing'', ''tbats'']" "''MSE''" SeasonalNone 1 False None None None
      ex_heap ?s0 ?cs "Date (ex_month 2020 4)" "Date (ex_month 2020 4)" ExogNone] i r
  have "predict ex_libs_failing (Date (ex_month 2020 4)) (Date (ex_month 2020 4)) ExogNone
          (run ex_libs_failing ?cs ?s0) =
        (Inl (AttributeError ''Model must be fitted to be able to make predictions''),
         run ex_libs_failing ?cs ?s0)"
    by blast
  with ex_failing_fit show ?thesis
    unfolding run by (simp add: ex_state_def)
qed

section \<open>The retry of auto-ARIMA\<close>

lemma fit_inputs_data:
  "data (fit_inputs d col exog self) = Some d"
  "series_column_name (fit_inputs d col exog self) = Some col"
  "auto_arima_args (fit_inputs d col exog self) = auto_arima_args self"
  "is_seasonal (fit_inputs d col exog self) = is_seasonal self"
  "model_names (fit_inputs d col exog self) = model_names self"
  by (cases exog; simp add: fit_inputs_def set_input_data_def Let_def)+

lemma kwargs_clash_seasonal_test:
  "kwargs_clash [''supress_warning'', ''seasonal'', ''m'', ''exogenous''] (args(''seasonal_test'' \<mapsto> v))
     = kwargs_clash [''supress_warning'', ''seasonal'', ''m'', ''exogenous''] args"
  by (simp add: kwargs_clash_def)

lemma fit_auto_arima_retry:
  assumes prep: "arima_prepare self (data self) = Inr (tr, te, m)"
    and y: "column_of (data self) (series_column_name self) = Inr y"
    and nc: "\<not> kwargs_clash [''supress_warning'', ''seasonal'', ''m'', ''exogenous'']
               (store h (auto_arima_args self))"
    and first: "auto_arima L y (is_seasonal self) m tr (store h (auto_arima_args self)) = Inl (ValueError msg)"
  shows "fit_auto_arima L True (h, self) =
           (case auto_arima L y (is_seasonal self) m tr
                   ((store h (auto_arima_args self))(''seasonal_test'' \<mapsto> PyStr ''ch'')) of
              Inl e2 \<Rightarrow> Inl e2
            | Inr model \<Rightarrow> arima_finish L self True te model,
            (dict_set h (auto_arima_args self) ''seasonal_test'' (PyStr ''ch''), self))"
  using assms
  by (simp add: fit_auto_arima_def arima_call_def bind_err_def dict_set_def Let_def
      kwargs_clash_seasonal_test split: sum.splits)

text \<open>
  C8. When the first call of \<^verbatim>\<open>auto_arima\<close> raises a \<open>ValueError\<close>, the fitter
  writes \<^verbatim>\<open>'seasonal_test': 'ch'\<close> into the option dictionary and calls
  \<^verbatim>\<open>auto_arima\<close> once more, with the same data and that dictionary; the outcome of
  the fitter is the outcome of this second call and of nothing after it. When the
  second call raises as well, \<^verbatim>\<open>fit\<close> raises the very same exception, with no
  candidate appended.
\<close>

theorem auto_arima_retries_once:
  assumes names: "''auto_arima'' \<in> set (model_names self)"
    and chk: "check_datetime_index L d = None"
    and prep: "arima_prepare (fit_inputs d col exog self) (Some d) = Inr (tr, te, m)"
    and y: "getitem d col = Inr y"
    and nc: "\<not> kwargs_clash [''supress_warning'', ''seasonal'', ''m'', ''exogenous'']
               (store h (auto_arima_args self))"
    and first: "auto_arima L y (is_seasonal self) m tr (store h (auto_arima_args self))
                  = Inl (ValueError msg)"
  shows "fit_auto_arima L True (h, fit_inputs d col exog self) =
           (case auto_arima L y (is_seasonal self) m tr
                   ((store h (auto_arima_args self))(''seasonal_test'' \<mapsto> PyStr ''ch'')) of
              Inl e2 \<Rightarrow> Inl e2
            | Inr model \<Rightarrow> arima_finish L (fit_inputs d col exog self) True te model,
            (dict_set h (auto_arima_args self) ''seasonal_test'' (PyStr ''ch''),
             fit_inputs d col exog self)) \<and>
         (\<forall>e2. auto_arima L y (is_seasonal self) m tr
                   ((store h (auto_arima_args self))(''seasonal_test'' \<mapsto> PyStr ''ch'')) = Inl e2
            \<longrightarrow> fit L d col exog (h, self) =
                  (Inl e2, (dict_set h (auto_arima_args self) ''seasonal_test'' (PyStr ''ch''),
                            fit_inputs d col exog self)))"
proof -
  let ?self = "fit_inputs d col exog self"
  have r: "fit_auto_arima L True (h, ?self) =
           (case auto_arima L y (is_seasonal self) m tr
                   ((store h (auto_arima_args self))(''seasonal_test'' \<mapsto> PyStr ''ch'')) of
              Inl e2 \<Rightarrow> Inl e2
            | Inr model \<Rightarrow> arima_finish L ?self True te model,
            (dict_set h (auto_arima_args self) ''seasonal_test'' (PyStr ''ch''), ?self))"
    using fit_auto_arima_retry[of ?self tr te m y h L msg] prep y nc first
    by (simp add: fit_inputs_data column_of_def frame_of_def bind_err_def)
  show ?thesis
    using r names chk
    by (auto simp: fit_def fit_candidates_def then_step_def fit_step_def fit_inputs_data)
qed

lemma ex_arima_first_call:
  "arima_prepare (fit_inputs ex_data ''y'' NoExog (snd (ex_state [''auto_arima''])))
      (Some ex_data) = Inr (None, None, 1)"
  "getitem ex_data ''y'' =
     Inr [(ex_month 2020 1, Some 1), (ex_month 2020 2, Some 2), (ex_month 2020 3, Some 4)]"
  by (simp_all add: ex_eval)

theorem auto_arima_retries_once_witness:
  "fit ex_libs_arima_failing ex_data ''y'' NoExog (ex_state [''auto_arima'']) =
     (Inl (ValueError ''ch test failed''),
      (dict_set (fst (ex_state [''auto_arima''])) 0 ''seasonal_test'' (PyStr ''ch''),
       fit_inputs ex_data ''y'' NoExog (snd (ex_state [''auto_arima'']))))"
proof -
  let ?L = ex_libs_arima_failing
  let ?h = "fst (ex_state [''auto_arima''])" and ?self = "snd (ex_state [''auto_arima''])"
  let ?y = "[(ex_month 2020 1, Some 1), (ex_month 2020 2, Some 2), (ex_month 2020 3, Some 4)]"
  have names: "''auto_arima'' \<in> set (model_names ?self)" by (simp add: ex_state_def)
  have chk: "check_datetime_index ?L ex_data = None"
    by (simp add: ex_libs_arima_failing_def ex_libs_def)
  have nc: "\<not> kwargs_clash [''supress_warning'', ''seasonal'', ''m'', ''exogenous'']
               (store ?h (auto_arima_args ?self))"
    by (simp add: kwargs_clash_def ex_state_def ex_heap_def)
  have first: "auto_arima ?L ?y (is_seasonal ?self) 1 None (store ?h (auto_arima_args ?self))
                 = Inl (ValueError ''shapes not aligned'')"
    by (simp add: ex_libs_arima_failing_def ex_libs_def ex_state_def ex_heap_def)
  have second: "auto_arima ?L ?y (is_seasonal ?self) 1 None
                  ((store ?h (auto_arima_args ?self))(''seasonal_test'' \<mapsto> PyStr ''ch''))
                 = Inl (ValueError ''ch test failed'')"
    by (simp add: ex_libs_arima_failing_def ex_libs_def ex_state_def ex_heap_def)
  from auto_arima_retries_once[OF names chk ex_arima_first_call(1) ex_arima_first_call(2) nc first]
    second
  have "fit ?L ex_data ''y'' NoExog (?h, ?self) =
          (Inl (ValueError ''ch test failed''),
           (dict_set ?h (auto_arima_args ?self) ''seasonal_test'' (PyStr ''ch''),
            fit_inputs ex_data ''y'' NoExog ?self))"
    by blast
  thus ?thesis by (simp add: ex_state_def)
qed

section \<open>What fit and predict do to the configuration\<close>

lemma options_after_fit_refl: "options_after_fit r self h h"
  by (simp add: options_after_fit_def)

lemma options_after_fit_cong:
  "configuration self' = configuration self \<Longrightarrow>
     options_after_fit r self' = options_after_fit r self"
  by (simp add: configuration_def options_after_fit_def option_change_def fun_eq_iff)

lemma option_change_split:
  "option_change r self a k old new \<longleftrightarrow>
     (r \<and> a = auto_arima_args self \<and> k = ''seasonal_test'' \<and> new = Some (PyStr ''ch'')) \<or>
     option_change False self a k old new"
  by (simp add: option_change_def)

lemma option_change_mono:
  assumes "option_change False self a k old new"
  shows "option_change r self a k old new"
  by (subst option_change_split) (simp add: assms)

lemma options_after_fit_mono:
  "options_after_fit False self h h' \<Longrightarrow> options_after_fit r self h h'"
  unfolding options_after_fit_def using option_change_mono by blast

lemma option_change_new: "option_change r self a k old new \<Longrightarrow> new \<noteq> None"
  unfolding option_change_def by blast

lemma option_change_from:
  "option_change r self a k old new \<Longrightarrow> old \<noteq> None \<Longrightarrow>
     r \<and> a = auto_arima_args self \<and> k = ''seasonal_test'' \<and> new = Some (PyStr ''ch'')"
  unfolding option_change_def by blast

lemma option_change_arima:
  "r \<and> a = auto_arima_args self \<and> k = ''seasonal_test'' \<and> new = Some (PyStr ''ch'') \<Longrightarrow>
     option_change r self a k old new"
  unfolding option_change_def by blast

lemma option_change_trans:
  assumes "option_change r self a k x y" and "option_change r self a k y z"
  shows "option_change r self a k x z"
  using option_change_from[OF assms(2) option_change_new[OF assms(1)]]
  by (rule option_change_arima)

lemma options_after_fit_trans:
  assumes "options_after_fit r self h h1" and "options_after_fit r self h1 h2"
  shows "options_after_fit r self h h2"
proof -
  have n: "next_free h2 = next_free h" using assms by (simp add: options_after_fit_def)
  have "store h2 a k = store h a k \<or> option_change r self a k (store h a k) (store h2 a k)"
    for a k
  proof -
    from assms(1) have 1: "store h1 a k = store h a k \<or>
        option_change r self a k (store h a k) (store h1 a k)"
      unfolding options_after_fit_def by blast
    from assms(2) have 2: "store h2 a k = store h1 a k \<or>
        option_change r self a k (store h1 a k) (store h2 a k)"
      unfolding options_after_fit_def by blast
    from 1 2 show ?thesis
      using option_change_trans[of r self a k "store h a k" "store h1 a k" "store h2 a k"]
      by metis
  qed
  with n show ?thesis unfolding options_after_fit_def by blast
qed

lemma options_after_fit_seasonal_test:
  assumes "options_after_fit False self h h'"
  shows "store h' a ''seasonal_test'' = store h a ''seasonal_test''"
proof -
  from assms have "store h' a ''seasonal_test'' = store h a ''seasonal_test'' \<or>
      option_change False self a ''seasonal_test'' (store h a ''seasonal_test'')
        (store h' a ''seasonal_test'')"
    unfolding options_after_fit_def by blast
  thus ?thesis by (auto simp: option_change_def)
qed

lemma options_after_fit_kept:
  assumes "options_after_fit False self h h'" and "store h a k \<noteq> None"
  shows "store h' a k = store h a k"
proof -
  from assms(1) have "store h' a k = store h a k \<or>
      option_change False self a k (store h a k) (store h' a k)"
    unfolding options_after_fit_def by blast
  with assms(2) show ?thesis using option_change_from[of False self a k] by blast
qed

lemma fit_frame_refl: "fit_frame r s s"
  by (simp add: fit_frame_def options_after_fit_refl)

lemma fit_frame_mono: "fit_frame False s s' \<Longrightarrow> fit_frame r s s'"
  by (simp add: fit_frame_def options_after_fit_mono)

lemma fit_frame_trans: "fit_frame r s s1 \<Longrightarrow> fit_frame r s1 s2 \<Longrightarrow> fit_frame r s s2"
  unfolding fit_frame_def
  using options_after_fit_cong[of "snd s1" "snd s" r]
    options_after_fit_trans[of r "snd s" "fst s" "fst s1" "fst s2"]
  by simp

lemma fit_frame_self:
  "fit_frame r (h, self) (h, self') \<longleftrightarrow> configuration self' = configuration self"
  by (simp add: fit_frame_def options_after_fit_refl)

lemma fit_auto_arima_frame: "fit_frame True s (snd (fit_auto_arima L u s))"
  by (auto simp: fit_auto_arima_def Let_def fit_frame_def options_after_fit_def dict_set_def
      option_change_def split: sum.splits prod.splits)

lemma fit_auto_arima_same:
  assumes "\<not> (\<exists>train_exog test_exog m e.
              arima_prepare (snd s) (if u then data (snd s) else training_data (snd s))
                = Inr (train_exog, test_exog, m) \<and>
              arima_call L (fst s) (snd s) (if u then data (snd s) else training_data (snd s))
                train_exog m = Inl e \<and>
              is_ValueError e)"
  shows "snd (fit_auto_arima L u s) = s"
  using assms
  by (auto simp: fit_auto_arima_def Let_def split: sum.splits prod.splits)

lemma fit_auto_arima_writes:
  assumes "arima_prepare (snd s) (if u then data (snd s) else training_data (snd s))
             = Inr (train_exog, test_exog, m)"
    and "arima_call L (fst s) (snd s) (if u then data (snd s) else training_data (snd s))
           train_exog m = Inl e"
    and "is_ValueError e"
  shows "store (fst (snd (fit_auto_arima L u s))) (auto_arima_args (snd s)) ''seasonal_test''
           = Some (PyStr ''ch'')"
  using assms
  by (auto simp: fit_auto_arima_def Let_def dict_set_def split: sum.splits)

lemma fit_exponential_smoothing_frame:
  "''exponential_smoothing'' \<in> set (model_names (snd s)) \<Longrightarrow>
     fit_frame False s (snd (fit_exponential_smoothing L u s))"
  by (auto simp: fit_exponential_smoothing_def Let_def fit_frame_def options_after_fit_def
      es_defaults_def dict_set_def option_change_def)

lemma fit_tbats_frame:
  "''tbats'' \<in> set (model_names (snd s)) \<Longrightarrow> fit_frame False s (snd (fit_tbats L u b s))"
  by (auto simp: fit_tbats_def Let_def fit_frame_def options_after_fit_def
      tbats_defaults_def dict_set_def option_change_def)

lemma fit_frame_candidates:
  "fit_frame r s s' \<Longrightarrow> fit_frame r s (fst s', (snd s')\<lparr>candidate_models := c\<rparr>)"
  by (simp add: fit_frame_def configuration_def)

lemma fit_step_frame:
  assumes "n \<in> set (model_names (snd s)) \<Longrightarrow> fit_frame r s (snd (f s))"
  shows "fit_frame r s (snd (fit_step n f s))"
proof (cases "n \<in> set (model_names (snd s))")
  case True
  obtain x s' where f: "f s = (x, s')" by (cases "f s") auto
  with assms[OF True] have "fit_frame r s s'" by simp
  with f True show ?thesis
    by (cases x) (auto simp: fit_step_def intro: fit_frame_candidates)
next
  case False
  thus ?thesis by (simp add: fit_step_def fit_frame_refl)
qed

lemma fit_ensemble_writes_configuration:
  "configuration (fit_ensemble_writes self) = configuration self"
  by (simp add: fit_ensemble_writes_def configuration_def split: list.splits sum.splits)

lemma configuration_candidates: "configuration (x\<lparr>candidate_models := c\<rparr>) = configuration x"
  by (simp add: configuration_def)

lemma fit_ensemble_step_frame: "fit_frame r s (snd (fit_ensemble_step L s))"
  by (auto simp: fit_ensemble_step_def Let_def fit_frame_def options_after_fit_refl
      fit_ensemble_writes_configuration configuration_candidates split: sum.splits)

lemma then_step_frame:
  assumes "fit_frame r s (snd (f1 s))" and "\<And>t. fit_frame r t (snd (f2 t))"
  shows "fit_frame r s (snd (then_step f1 f2 s))"
proof -
  obtain x s' where f: "f1 s = (x, s')" by (cases "f1 s") auto
  with assms(1) have 1: "fit_frame r s s'" by simp
  show ?thesis
  proof (cases x)
    case (Inl e)
    with f 1 show ?thesis by (simp add: then_step_def)
  next
    case (Inr u)
    with f have "then_step f1 f2 s = f2 s'" by (simp add: then_step_def)
    with fit_frame_trans[OF 1 assms(2)[of s']] show ?thesis by simp
  qed
qed

lemma fit_inputs_configuration:
  "configuration (fit_inputs d col exog self) = configuration self"
  by (cases exog) (simp_all add: fit_inputs_def set_input_data_def configuration_def Let_def)

lemma later_steps_frame:
  "fit_frame False t
     (snd (then_step (fit_step ''exponential_smoothing'' (fit_exponential_smoothing L True))
            (then_step (fit_step ''tbats'' (fit_tbats L True True))
            (fit_ensemble_step L)) t))"
  by (intro then_step_frame fit_step_frame fit_ensemble_step_frame
      fit_exponential_smoothing_frame fit_tbats_frame)

lemma arima_step_frame:
  assumes "r \<longleftrightarrow> ''auto_arima'' \<in> set (model_names (snd s)) \<and>
     (\<exists>train_exog test_exog m e.
        arima_prepare (snd s) (data (snd s)) = Inr (train_exog, test_exog, m) \<and>
        arima_call L (fst s) (snd s) (data (snd s)) train_exog m = Inl e \<and>
        is_ValueError e)"
  shows "fit_frame r s (snd (fit_step ''auto_arima'' (fit_auto_arima L True) s))"
proof (cases r)
  case True
  thus ?thesis using fit_auto_arima_frame[of s L True] by (intro fit_step_frame) simp
next
  case False
  show ?thesis
  proof (cases "''auto_arima'' \<in> set (model_names (snd s))")
    case n: True
    with False assms have "snd (fit_auto_arima L True s) = s"
      by (intro fit_auto_arima_same) simp
    hence "fit_frame r s (snd (fit_auto_arima L True s))" by (simp add: fit_frame_refl)
    thus ?thesis by (intro fit_step_frame)
  next
    case False
    thus ?thesis by (simp add: fit_step_def fit_frame_refl)
  qed
qed

lemma arima_step_writes:
  assumes "''auto_arima'' \<in> set (model_names (snd s))"
    and "arima_prepare (snd s) (data (snd s)) = Inr (train_exog, test_exog, m)"
    and "arima_call L (fst s) (snd s) (data (snd s)) train_exog m = Inl e"
    and "is_ValueError e"
  shows "store (fst (snd (fit_step ''auto_arima'' (fit_auto_arima L True) s)))
           (auto_arima_args (snd s)) ''seasonal_test'' = Some (PyStr ''ch'')"
proof -
  obtain x s' where f: "fit_auto_arima L True s = (x, s')"
    by (cases "fit_auto_arima L True s") auto
  from fit_auto_arima_writes[where s = s and u = True and L = L and e = e
        and train_exog = train_exog and test_exog = test_exog and m = m] assms f
  have "store (fst s') (auto_arima_args (snd s)) ''seasonal_test'' = Some (PyStr ''ch'')"
    by simp
  with f assms(1) show ?thesis by (cases x) (simp_all add: fit_step_def)
qed

lemma arima_retried_iff:
  "arima_retried L d col exog s \<longleftrightarrow>
     check_datetime_index L d = None \<and>
     ''auto_arima'' \<in> set (model_names (fit_inputs d col exog (snd s))) \<and>
     (\<exists>train_exog test_exog m e.
        arima_prepare (fit_inputs d col exog (snd s)) (data (fit_inputs d col exog (snd s)))
          = Inr (train_exog, test_exog, m) \<and>
        arima_call L (fst s) (fit_inputs d col exog (snd s))
          (data (fit_inputs d col exog (snd s))) train_exog m = Inl e \<and>
        is_ValueError e)"
  by (auto simp: arima_retried_def first_auto_arima_call_def Let_def
      split: sum.splits prod.splits option.splits)

lemma fit_candidates_frame:
  "fit_frame (arima_retried L d col exog s) s (snd (fit_candidates L d col exog s))"
proof (cases "check_datetime_index L d")
  case None
  let ?s1 = "(fst s, fit_inputs d col exog (snd s))"
  let ?r = "arima_retried L d col exog s"
  have a: "fit_frame ?r s ?s1"
    using fit_frame_self[of ?r "fst s" "snd s" "fit_inputs d col exog (snd s)"]
    by (simp add: fit_inputs_configuration)
  have r: "?r \<longleftrightarrow> ''auto_arima'' \<in> set (model_names (snd ?s1)) \<and>
      (\<exists>train_exog test_exog m e.
         arima_prepare (snd ?s1) (data (snd ?s1)) = Inr (train_exog, test_exog, m) \<and>
         arima_call L (fst ?s1) (snd ?s1) (data (snd ?s1)) train_exog m = Inl e \<and>
         is_ValueError e)"
    unfolding arima_retried_iff using None by simp
  have b1: "fit_frame ?r ?s1 (snd (fit_step ''auto_arima'' (fit_auto_arima L True) ?s1))"
    by (rule arima_step_frame[OF r])
  have b: "fit_frame ?r ?s1 (snd (then_step (fit_step ''auto_arima'' (fit_auto_arima L True))
            (then_step (fit_step ''exponential_smoothing'' (fit_exponential_smoothing L True))
            (then_step (fit_step ''tbats'' (fit_tbats L True True))
            (fit_ensemble_step L))) ?s1))"
  proof (rule then_step_frame)
    show "fit_frame ?r ?s1 (snd (fit_step ''auto_arima'' (fit_auto_arima L True) ?s1))"
      by (rule b1)
  next
    fix t
    show "fit_frame ?r t
       (snd (then_step (fit_step ''exponential_smoothing'' (fit_exponential_smoothing L True))
            (then_step (fit_step ''tbats'' (fit_tbats L True True))
            (fit_ensemble_step L)) t))"
      by (rule fit_frame_mono[OF later_steps_frame])
  qed
  from fit_frame_trans[OF a b] None show ?thesis by (simp add: fit_candidates_def)
next
  case (Some e)
  then show ?thesis by (simp add: fit_candidates_def fit_frame_refl)
qed

lemma fit_select_frame: "fit_frame r s (snd (fit_select L s))"
  by (auto simp: fit_select_def Let_def fit_frame_def configuration_def options_after_fit_refl
      split: list.splits)

lemma fit_fit_frame: "fit_frame (arima_retried L d col exog s) s (snd (fit L d col exog s))"
  unfolding fit_def by (intro then_step_frame fit_candidates_frame fit_select_frame)

lemma fit_select_heap: "fst (snd (fit_select L s)) = fst s"
  by (auto simp: fit_select_def Let_def split: list.splits)

lemma fit_candidates_retried:
  assumes "arima_retried L d col exog s"
  shows "store (fst (snd (fit_candidates L d col exog s))) (auto_arima_args (snd s))
           ''seasonal_test'' = Some (PyStr ''ch'')"
proof -
  let ?s1 = "(fst s, fit_inputs d col exog (snd s))"
  let ?rest = "then_step (fit_step ''exponential_smoothing'' (fit_exponential_smoothing L True))
            (then_step (fit_step ''tbats'' (fit_tbats L True True)) (fit_ensemble_step L))"
  from assms have c: "check_datetime_index L d = None"
    and n: "''auto_arima'' \<in> set (model_names (snd ?s1))"
    unfolding arima_retried_iff by simp_all
  from assms obtain train_exog test_exog m e where
    p: "arima_prepare (snd ?s1) (data (snd ?s1)) = Inr (train_exog, test_exog, m)"
    and ca: "arima_call L (fst ?s1) (snd ?s1) (data (snd ?s1)) train_exog m = Inl e"
    and v: "is_ValueError e"
    unfolding arima_retried_iff by auto
  obtain x s2 where st: "fit_step ''auto_arima'' (fit_auto_arima L True) ?s1 = (x, s2)"
    by (cases "fit_step ''auto_arima'' (fit_auto_arima L True) ?s1") auto
  have aa: "auto_arima_args (snd ?s1) = auto_arima_args (snd s)"
    using fit_inputs_configuration[of d col exog "snd s"] by (simp add: configuration_def)
  have w: "store (fst s2) (auto_arima_args (snd s)) ''seasonal_test'' = Some (PyStr ''ch'')"
    using arima_step_writes[OF n p ca v] st aa by simp
  have fc: "fit_candidates L d col exog s =
              then_step (fit_step ''auto_arima'' (fit_auto_arima L True)) ?rest ?s1"
    using c by (simp add: fit_candidates_def)
  show ?thesis
  proof (cases x)
    case (Inl e1)
    with st w fc show ?thesis by (simp add: then_step_def)
  next
    case (Inr u)
    with st fc have "fit_candidates L d col exog s = ?rest s2" by (simp add: then_step_def)
    moreover have "options_after_fit False (snd s2) (fst s2) (fst (snd (?rest s2)))"
      using later_steps_frame[of s2 L] by (simp add: fit_frame_def)
    ultimately show ?thesis using options_after_fit_seasonal_test w by simp
  qed
qed

lemma fit_retried:
  assumes "arima_retried L d col exog s"
  shows "store (fst (snd (fit L d col exog s))) (auto_arima_args (snd s)) ''seasonal_test''
           = Some (PyStr ''ch'')"
proof -
  obtain x s1 where f: "fit_candidates L d col exog s = (x, s1)"
    by (cases "fit_candidates L d col exog s") auto
  with fit_candidates_retried[OF assms]
  have w: "store (fst s1) (auto_arima_args (snd s)) ''seasonal_test'' = Some (PyStr ''ch'')"
    by simp
  show ?thesis
    using f w fit_select_heap[of L s1] by (cases x) (simp_all add: fit_def then_step_def)
qed

lemma select_handle_configuration: "configuration (select_handle t self) = configuration self"
proof -
  have "configuration (foldl (\<lambda>acc c. if model_type c = t then acc\<lparr>fit_model := cand_fit_model c\<rparr> else acc) x cs)
        = configuration x" for x cs
    by (induction cs arbitrary: x) (simp_all add: configuration_def)
  thus ?thesis by (simp add: select_handle_def)
qed

lemma ensemble_member_configuration:
  "configuration (snd (ensemble_member n l p acc self)) = configuration self"
  by (simp add: ensemble_member_def Let_def select_handle_configuration split: sum.splits)

lemma predict_ensemble_configuration:
  "configuration (snd (predict_ensemble L self a b c ex)) = configuration self"
proof -
  have m: "ensemble_member n l p acc x = (r, y) \<Longrightarrow> configuration y = configuration x"
    for n l p acc x r y
    using ensemble_member_configuration[of n l p acc x] by simp
  show ?thesis
    unfolding predict_ensemble_def
    by (auto split: prod.splits sum.splits dest!: m simp: configuration_def)
qed

lemma predict_frame:
  "configuration (snd (snd (predict L a b ex s))) = configuration (snd s) \<and>
   fst (snd (predict L a b ex s)) = fst s"
proof -
  have m: "predict_ensemble L self x y z e = (r, self') \<Longrightarrow>
             configuration self' = configuration self" for self x y z e r self'
    using predict_ensemble_configuration[of L self x y z e] by simp
  show ?thesis
    by (auto simp: predict_def predict_dispatch_def Let_def split: sum.splits prod.splits
        dest: m)
qed

lemma ex_caller_init:
  "init ex_libs [''exponential_smoothing''] ''mse'' SeasonalNone 1 False None (Some 7) None
     ex_caller_heap = Inr ex_caller_state"
  by (simp add: init_def fix_mutable_def alloc_def ex_caller_heap_def ex_libs_def
      parse_metric_def lower_def lower_char_def ex_caller_state_def)

lemma ex_caller_fit:
  "fst (fit ex_libs ex_data ''y'' NoExog ex_caller_state) = Inr () \<and>
   store (fst (snd (fit ex_libs ex_data ''y'' NoExog ex_caller_state))) 7 ''trend''
     = Some (PyStr ''add'') \<and>
   store (fst (snd (fit ex_libs ex_data ''y'' NoExog ex_caller_state))) 7 ''damped''
     = Some (PyBool True)"
  by (simp add: fit_def fit_select_def ex_caller_state_def ex_caller_heap_def ex_eval)

text \<open>
  C9, as the claim states it, fails: \<^verbatim>\<open>fit\<close> writes the defaults of a fitter into the
  option dictionary the instance holds, which is the caller's own dictionary when the
  caller supplied one. Here the caller's dictionary at address 7 has no
  \<^verbatim>\<open>'trend'\<close> before \<^verbatim>\<open>fit\<close> and holds \<^verbatim>\<open>'trend': 'add'\<close> after it.
\<close>

theorem configuration_immutable_counterexample:
  "init ex_libs [''exponential_smoothing''] ''mse'' SeasonalNone 1 False None (Some 7) None
     ex_caller_heap = Inr ex_caller_state \<and>
   exponential_smoothing_args (snd ex_caller_state) = 7 \<and>
   store ex_caller_heap 7 ''trend'' = None \<and>
   store (fst ex_caller_state) 7 ''trend'' = None \<and>
   fst (fit ex_libs ex_data ''y'' NoExog ex_caller_state) = Inr () \<and>
   store (fst (snd (fit ex_libs ex_data ''y'' NoExog ex_caller_state))) 7 ''trend''
     = Some (PyStr ''add'')"
  using ex_caller_init ex_caller_fit
  by (simp add: ex_caller_state_def ex_caller_heap_def)

lemma ex_ocsb_not_retried:
  "\<not> arima_retried ex_libs_arima_returning ex_data ''y'' NoExog ex_ocsb_state"
  by (simp add: arima_retried_def first_auto_arima_call_def ex_libs_arima_returning_def
      ex_ocsb_state_def ex_caller_state_def ex_caller_heap_def ex_eval)

text \<open>
  C9, amended. Every \<^verbatim>\<open>fit\<close> and every \<^verbatim>\<open>predict\<close> call, returning or raising,
  leaves the model names, the error metric, the seasonality flag and periods, the
  holdout length, the verbosity and the references to the three option dictionaries
  unchanged. \<^verbatim>\<open>predict\<close> changes no dictionary. \<^verbatim>\<open>fit\<close> makes no new dictionary
  and changes the dictionaries by these writes only. In a \<^verbatim>\<open>fit\<close> call whose first
  \<^verbatim>\<open>auto_arima\<close> call raised a \<open>ValueError\<close>, and in no other,
  \<^verbatim>\<open>'seasonal_test'\<close> in the auto-ARIMA options is set to \<^verbatim>\<open>'ch'\<close>, and it is so
  after the call. If exponential smoothing is among the model names, \<^verbatim>\<open>'trend'\<close> and
  \<^verbatim>\<open>'seasonal'\<close> can be added to the exponential-smoothing options where the key was
  absent; if BATS is among them, \<^verbatim>\<open>'n_jobs'\<close> and \<^verbatim>\<open>'use_arma_errors'\<close> can be
  added to the BATS options where the key was absent. Every other entry of every
  dictionary is as before.
\<close>

theorem configuration_kept_options_extended:
  "configuration (snd (snd (fit L d col exog s))) = configuration (snd s) \<and>
   options_after_fit (arima_retried L d col exog s) (snd s) (fst s)
     (fst (snd (fit L d col exog s))) \<and>
   (arima_retried L d col exog s \<longrightarrow>
      store (fst (snd (fit L d col exog s))) (auto_arima_args (snd s)) ''seasonal_test''
        = Some (PyStr ''ch'')) \<and>
   configuration (snd (snd (predict L a b ex s))) = configuration (snd s) \<and>
   fst (snd (predict L a b ex s)) = fst s"
  using fit_fit_frame[of L d col exog s] predict_frame[of L a b ex s]
    fit_retried[of L d col exog s]
  by (simp add: fit_frame_def)

theorem configuration_kept_options_extended_witness:
  "\<not> arima_retried ex_libs_arima_returning ex_data ''y'' NoExog ex_ocsb_state \<and>
   auto_arima_args (snd ex_ocsb_state) = 7 \<and>
   store (fst ex_ocsb_state) 7 ''seasonal_test'' = Some (PyStr ''ocsb'') \<and>
   store (fst (snd (fit ex_libs_arima_returning ex_data ''y'' NoExog ex_ocsb_state))) 7
     ''seasonal_test'' = Some (PyStr ''ocsb'') \<and>
   configuration (snd (snd (fit ex_libs_arima_returning ex_data ''y'' NoExog ex_ocsb_state))) =
     ([''auto_arima''], Mse, False, None, 1, False, 7, 8, 9)"
proof -
  let ?h' = "fst (snd (fit ex_libs_arima_returning ex_data ''y'' NoExog ex_ocsb_state))"
  from configuration_kept_options_extended[of ex_libs_arima_returning ex_data "''y''" NoExog
      ex_ocsb_state]
  have c: "configuration (snd (snd (fit ex_libs_arima_returning ex_data ''y'' NoExog
             ex_ocsb_state))) = configuration (snd ex_ocsb_state)"
    and o: "options_after_fit
              (arima_retried ex_libs_arima_returning ex_data ''y'' NoExog ex_ocsb_state)
              (snd ex_ocsb_state) (fst ex_ocsb_state) ?h'"
    by blast+
  from o have o': "options_after_fit False (snd ex_ocsb_state) (fst ex_ocsb_state) ?h'"
    using ex_ocsb_not_retried by simp
  have b: "store (fst ex_ocsb_state) 7 ''seasonal_test'' = Some (PyStr ''ocsb'')"
    by (simp add: ex_ocsb_state_def)
  have 1: "store ?h' 7 ''seasonal_test'' = Some (PyStr ''ocsb'')"
    using options_after_fit_kept[OF o', of 7 "''seasonal_test''"] b by simp
  from c 1 b ex_ocsb_not_retried show ?thesis
    by (simp add: configuration_def ex_ocsb_state_def ex_caller_state_def)
qed

section \<open>Tables of test predictions\<close>

lemma endswith_actuals: "endswith p ''predictions'' \<Longrightarrow> p \<noteq> ''actuals''"
  by (auto simp: endswith_def)

lemma map_of_zip_map_fun:
  "map_of (zip ks (map f ks)) k = (if k \<in> set ks then Some (f k) else None)"
  by (induction ks) auto

lemma row_cell_fun: "k \<in> set ks \<Longrightarrow> row_cell ks (map f ks) k = f k"
  by (simp add: row_cell_def map_of_zip_map_fun)

lemma getitem_list_fun:
  assumes "set sel \<subseteq> set cols"
  shows "getitem_list \<lparr>columns = cols, rows = map (\<lambda>d. (d, map (F d) cols)) idx\<rparr> sel =
           Inr \<lparr>columns = sel, rows = map (\<lambda>d. (d, map (F d) sel)) idx\<rparr>"
proof -
  have "map (row_cell cols (map (F d) cols)) sel = map (F d) sel" for d
    using assms by (intro map_cong refl row_cell_fun) auto
  thus ?thesis using assms by (simp add: getitem_list_def comp_def)
qed

lemma setitem_fun:
  "setitem \<lparr>columns = cols, rows = map (\<lambda>d. (d, map (F d) cols)) idx\<rparr> c (map m idx) =
     \<lparr>columns = (if c \<in> set cols then cols else cols @ [c]),
      rows = map (\<lambda>d. (d, map (\<lambda>n. if n = c then m d else F d n)
                            (if c \<in> set cols then cols else cols @ [c]))) idx\<rparr>"
proof -
  have z: "zip (map (\<lambda>d. (d, map (F d) cols)) idx) (map m idx) =
           map (\<lambda>d. ((d, map (F d) cols), m d)) idx"
    by (induction idx) auto
  have r: "map (\<lambda>(n, old). if n = c then v else old) (zip cols (map f cols)) =
           map (\<lambda>n. if n = c then v else f n) cols" for v f
    by (induction cols) auto
  show ?thesis
    by (simp add: setitem_def z r comp_def)
qed

lemma mean_columns_fun:
  "mean_columns \<lparr>columns = cols, rows = map (\<lambda>d. (d, g d)) idx\<rparr> =
     map (\<lambda>d. mean_skipna (g d)) idx"
  by (simp add: mean_columns_def comp_def)

section \<open>The ensemble at a second fit\<close>

lemma ex_first_fit_candidates:
  "fst (fit ex_libs_refit ex_data ''y'' NoExog (ex_state [''tbats'', ''ensemble''])) = Inr () \<and>
   candidate_models (snd ex_first_fit) =
     [\<lparr>error = Some 1, cand_fit_model = Some (TbatsFit 3), model_type = ''tbats'',
       predictions = \<lparr>columns = [''actuals'', ''tb_test_predictions'', ''en_test_predictions''],
                      rows = [(ex_month 2020 3, [Some 4, Some 3, Some 3])]\<rparr>\<rparr>,
      \<lparr>error = Some 1, cand_fit_model = None, model_type = ''ensemble'',
       predictions = \<lparr>columns = [''actuals'', ''en_test_predictions''],
                      rows = [(ex_month 2020 3, [Some 4, Some 3])]\<rparr>\<rparr>]"
  by (simp add: ex_first_fit_def fit_def fit_select_def ex_libs_refit_def ex_eval)

lemma ex_first_fit_fields:
  "model_names (snd ex_first_fit) = [''tbats'', ''ensemble'']"
  "holdout_period (snd ex_first_fit) = 1"
  "verbose (snd ex_first_fit) = False"
  "seasonal_period (snd ex_first_fit) = None"
  "error_metric (snd ex_first_fit) = Mse"
  "tbats_args (snd ex_first_fit) = 2"
  "using_exogenous (snd ex_first_fit) = False"
  by (simp_all add: ex_first_fit_def fit_def fit_select_def ex_libs_refit_def ex_eval)

lemma ex_first_fit_heap:
  "store (fst ex_first_fit) 2 ''seasonal_periods'' = None"
  "store (fst ex_first_fit) 2 ''use_box_cox'' = None"
  "store (fst ex_first_fit) 2 ''n_jobs'' = Some (PyInt 1)"
  "store (fst ex_first_fit) 2 ''use_arma_errors'' = Some (PyBool False)"
  by (simp_all add: ex_first_fit_def fit_def fit_select_def ex_libs_refit_def ex_eval)

lemmas ex_eval_refit =
  fit_def fit_select_def sorted_by_error_def
  fit_candidates_def fit_inputs_def then_step_def fit_step_def fit_ensemble_step_def
  fit_tbats_def tbats_defaults_def tbats_body_def
  fit_ensemble_def fit_ensemble_writes_def
  py_reduce_def drop_column_def merge_def getitem_list_def setitem_def
  mean_columns_def mean_skipna_def endswith_def
  set_input_data_def iloc_to_def iloc_from_def py_slice_to_def py_slice_from_def
  frame_of_def column_of_def columns_of_def getitem_def row_cell_def bind_err_def
  py_index_def df_index_def kwargs_clash_def dict_set_def error_metric_fn_def
  DataFrame_series_array_def
  ex_libs_refit_def ex_libs_def ex_data_longer_def ex_month_def Let_def
  ex_first_fit_candidates ex_first_fit_fields ex_first_fit_heap

lemma ex_second_fit:
  "fst (fit ex_libs_refit ex_data_longer ''y'' NoExog ex_first_fit) = Inr () \<and>
   map (\<lambda>c. (model_type c, columns (predictions c), rows (predictions c)))
     (candidate_models (snd (snd (fit ex_libs_refit ex_data_longer ''y'' NoExog ex_first_fit)))) =
     [(''tbats'', [''actuals'', ''tb_test_predictions'', ''en_test_predictions''],
         [(ex_month 2020 3, [Some 4, Some 3, Some 3])]),
      (''ensemble'', [''actuals'', ''en_test_predictions''],
         [(ex_month 2020 3, [Some 4, Some 3])]),
      (''tbats'', [''actuals'', ''tb_test_predictions''],
         [(ex_month 2020 3, [Some 4, Some 4])]),
      (''ensemble'', [''actuals'', ''en_test_predictions''],
         [(ex_month 2020 3, [Some 4, None])])]"
  by (simp add: ex_eval_refit)

text \<open>
  C6 at a second \<^verbatim>\<open>fit\<close> of one instance, with the model names \<^verbatim>\<open>tbats\<close> and
  \<^verbatim>\<open>ensemble\<close> and a holdout of one month. The first \<^verbatim>\<open>fit\<close> returns; its ensemble
  has one constituent, whose table \<^verbatim>\<open>reduce\<close> returns as it is, so that line 280 has
  written the column \<^verbatim>\<open>en_test_predictions\<close> into the BATS candidate's own table.
  \<^verbatim>\<open>fit\<close> does not empty \<^verbatim>\<open>candidate_models\<close>, so the second \<^verbatim>\<open>fit\<close> joins the
  tables of both old candidates and of the new BATS candidate. Every prediction column
  then occurs twice, the join renames each (\<^verbatim>\<open>_x\<close>, \<^verbatim>\<open>_y\<close>), no column name ends
  in \<^verbatim>\<open>predictions\<close> any more, and the mean is taken over no column: the new
  ensemble candidate predicts NaN where its constituents predict 3, 3 and 4.
\<close>

theorem ensemble_at_second_fit_is_nan:
  "fst (fit ex_libs_refit ex_data ''y'' NoExog (ex_state [''tbats'', ''ensemble''])) = Inr () \<and>
   ex_first_fit = snd (fit ex_libs_refit ex_data ''y'' NoExog (ex_state [''tbats'', ''ensemble''])) \<and>
   map (\<lambda>c. (model_type c, columns (predictions c), rows (predictions c)))
     (candidate_models (snd ex_first_fit)) =
     [(''tbats'', [''actuals'', ''tb_test_predictions'', ''en_test_predictions''],
         [(ex_month 2020 3, [Some 4, Some 3, Some 3])]),
      (''ensemble'', [''actuals'', ''en_test_predictions''],
         [(ex_month 2020 3, [Some 4, Some 3])])] \<and>
   fst (fit ex_libs_refit ex_data_longer ''y'' NoExog ex_first_fit) = Inr () \<and>
   map (\<lambda>c. (model_type c, columns (predictions c), rows (predictions c)))
     (candidate_models (snd (snd (fit ex_libs_refit ex_data_longer ''y'' NoExog ex_first_fit)))) =
     [(''tbats'', [''actuals'', ''tb_test_predictions'', ''en_test_predictions''],
         [(ex_month 2020 3, [Some 4, Some 3, Some 3])]),
      (''ensemble'', [''actuals'', ''en_test_predictions''],
         [(ex_month 2020 3, [Some 4, Some 3])]),
      (''tbats'', [''actuals'', ''tb_test_predictions''],
         [(ex_month 2020 3, [Some 4, Some 4])]),
      (''ensemble'', [''actuals'', ''en_test_predictions''],
         [(ex_month 2020 3, [Some 4, None])])]"
  using ex_first_fit_candidates ex_second_fit by (simp add: ex_first_fit_def)

section \<open>The ensemble and the number of candidates\<close>

lemma fit_ensemble_no_candidates:
  "candidate_models self = [] \<Longrightarrow>
     fit_ensemble L self =
       Inl (TypeError ''reduce() of empty iterable with no initial value'')"
  by (simp add: fit_ensemble_def py_reduce_def bind_err_def)

lemma fit_step_skipped: "n \<notin> set (model_names (snd s)) \<Longrightarrow> fit_step n f s = (Inr (), s)"
  by (simp add: fit_step_def)

lemma fit_ensemble_one_candidate:
  assumes "candidate_models self = [c]" and "''actuals'' \<in> set (columns (predictions c))"
  shows "\<exists>T E. fit_ensemble L self =
           bind_err (error_metric_fn L self T ''en_test_predictions'' ''actuals'')
             (\<lambda>err. Inr \<lparr>error = err, cand_fit_model = None, model_type = ''ensemble'',
                          predictions = E\<rparr>)"
proof -
  let ?t = "predictions c"
  obtain sel where sel: "getitem_list ?t (filter (\<lambda>c. endswith c ''predictions'') (columns ?t))
                           = Inr sel"
    by (auto simp: getitem_list_def)
  let ?T = "setitem ?t ''en_test_predictions'' (mean_columns sel)"
  have "set [''actuals'', ''en_test_predictions''] \<subseteq> set (columns ?T)"
    using assms(2) by (auto simp: setitem_def)
  then obtain E where E: "getitem_list ?T [''actuals'', ''en_test_predictions''] = Inr E"
    by (auto simp: getitem_list_def)
  have "fit_ensemble L self =
           bind_err (error_metric_fn L self ?T ''en_test_predictions'' ''actuals'')
             (\<lambda>err. Inr \<lparr>error = err, cand_fit_model = None, model_type = ''ensemble'',
                          predictions = E\<rparr>)"
    unfolding fit_ensemble_def Let_def assms(1)
    by (simp only: list.map py_reduce_def list.case foldl_err.simps bind_err_def sum.case sel E)
  thus ?thesis by blast
qed

text \<open>
  C5, as the claim states it, fails: with exactly one candidate before the ensemble
  step the ensemble is fitted, and \<^verbatim>\<open>fit\<close> returns.
\<close>

theorem ensemble_needs_two_candidates_counterexample:
  "fst (fit ex_libs ex_data ''y'' NoExog (ex_state [''tbats'', ''ensemble''])) = Inr () \<and>
   map model_type (candidate_models (snd (snd
     (fit ex_libs ex_data ''y'' NoExog (ex_state [''tbats'', ''ensemble''])))))
     = [''tbats'', ''ensemble''] \<and>
   length (candidate_models ex_one_candidate) = 1 \<and>
   fit_ensemble ex_libs ex_one_candidate =
     Inr \<lparr>error = Some 1, cand_fit_model = None, model_type = ''ensemble'',
          predictions = \<lparr>columns = [''actuals'', ''en_test_predictions''],
                         rows = [(ex_month 2020 3, [Some 4, Some 5])]\<rparr>\<rparr>"
  by (simp add: fit_def fit_select_def ex_one_candidate_def ex_eval)

text \<open>
  C5, amended. With \<^verbatim>\<open>ensemble\<close> configured, none of the three other model types
  configured and no candidate held, \<^verbatim>\<open>fit\<close> raises, and \<^verbatim>\<open>_fit_ensemble\<close> raises
  whenever the list of candidates is empty. With exactly one candidate, whose table
  has the column \<^verbatim>\<open>actuals\<close>, \<^verbatim>\<open>_fit_ensemble\<close> raises only when the error metric
  does; for a table of \<^verbatim>\<open>actuals\<close> and one prediction column the ensemble's
  predictions are that candidate's.
\<close>

theorem ensemble_fails_without_candidates_only:
  "(candidate_models self = [] \<and> ''ensemble'' \<in> set (model_names self) \<and>
    ''auto_arima'' \<notin> set (model_names self) \<and>
    ''exponential_smoothing'' \<notin> set (model_names self) \<and>
    ''tbats'' \<notin> set (model_names self) \<longrightarrow>
      (\<exists>e s'. fit L d col exog (h, self) = (Inl e, s'))) \<and>
   (candidate_models self = [] \<longrightarrow> (\<exists>e. fit_ensemble L self = Inl e)) \<and>
   (candidate_models self1 = [c] \<and> ''actuals'' \<in> set (columns (predictions c)) \<longrightarrow>
      (\<exists>T E. fit_ensemble L self1 =
           bind_err (error_metric_fn L self1 T ''en_test_predictions'' ''actuals'')
             (\<lambda>err. Inr \<lparr>error = err, cand_fit_model = None, model_type = ''ensemble'',
                          predictions = E\<rparr>))) \<and>
   (candidate_models self1 = [c] \<and> predictions c = two_columns idx p a v \<and> distinct idx \<and>
    endswith p ''predictions'' \<and>
    error_metric_fn L self1
      (setitem (predictions c) ''en_test_predictions'' (map v idx))
      ''en_test_predictions'' ''actuals'' = Inr err \<longrightarrow>
      fit_ensemble L self1 =
        Inr \<lparr>error = err, cand_fit_model = None, model_type = ''ensemble'',
             predictions = two_columns idx ''en_test_predictions'' a v\<rparr>)"
proof -
  have 1: "\<exists>e s'. fit L d col exog (h, self) = (Inl e, s')"
    if f: "candidate_models self = []" and e: "''ensemble'' \<in> set (model_names self)"
      and n: "''auto_arima'' \<notin> set (model_names self)"
        "''exponential_smoothing'' \<notin> set (model_names self)"
        "''tbats'' \<notin> set (model_names self)"
  proof (cases "check_datetime_index L d")
    case (Some e)
    then show ?thesis by (simp add: fit_def fit_candidates_def then_step_def)
  next
    case None
    let ?self = "fit_inputs d col exog self"
    have m: "model_names ?self = model_names self" "candidate_models ?self = []"
      by (cases exog; simp add: fit_inputs_def set_input_data_def Let_def f)+
    have "fit_ensemble_step L (h, ?self) =
            (Inl (TypeError ''reduce() of empty iterable with no initial value''), (h, ?self))"
      using e m
      by (simp add: fit_ensemble_step_def fit_ensemble_no_candidates fit_ensemble_writes_def)
    thus ?thesis
      using None n m
      by (simp add: fit_def fit_candidates_def then_step_def fit_step_skipped)
  qed
  have 4: "fit_ensemble L self1 =
        Inr \<lparr>error = err, cand_fit_model = None, model_type = ''ensemble'',
             predictions = two_columns idx ''en_test_predictions'' a v\<rparr>"
    if c: "candidate_models self1 = [c]" and t: "predictions c = two_columns idx p a v"
      and di: "distinct idx" and en: "endswith p ''predictions''"
      and er: "error_metric_fn L self1
      (setitem (predictions c) ''en_test_predictions'' (map v idx))
      ''en_test_predictions'' ''actuals'' = Inr err"
  proof -
    have na: "p \<noteq> ''actuals''" using en by (rule endswith_actuals)
    have fl: "filter (\<lambda>c. endswith c ''predictions'') (columns (predictions c)) = [p]"
      using en by (simp add: t two_columns_def endswith_def)
    have tf: "predictions c = \<lparr>columns = [''actuals'', p],
               rows = map (\<lambda>d. (d, map (\<lambda>n. if n = ''actuals'' then a d else v d) [''actuals'', p])) idx\<rparr>"
      using na by (simp add: t two_columns_def)
    have sel: "getitem_list (predictions c) [p] =
                 Inr \<lparr>columns = [p], rows = map (\<lambda>d. (d, [v d])) idx\<rparr>"
      unfolding tf using na
      by (subst getitem_list_fun) simp_all
    have mc: "mean_columns \<lparr>columns = [p], rows = map (\<lambda>d. (d, [v d])) idx\<rparr> = map v idx"
      by (simp add: mean_columns_fun mean_skipna_def)
    have gi: "getitem_list (setitem (predictions c) ''en_test_predictions'' (map v idx))
                [''actuals'', ''en_test_predictions''] =
              Inr (two_columns idx ''en_test_predictions'' a v)"
      unfolding tf setitem_fun using na
      by (subst getitem_list_fun) (auto simp: two_columns_def)
    show ?thesis
      unfolding fit_ensemble_def Let_def c
      by (simp only: list.map py_reduce_def list.case foldl_err.simps bind_err_def sum.case
          fl sel mc er gi)
  qed
  show ?thesis
    using 1 4 fit_ensemble_no_candidates[of self L] fit_ensemble_one_candidate[of self1 c L]
    by blast
qed

theorem ensemble_fails_without_candidates_only_witness:
  "(\<exists>e s'. fit ex_libs ex_data ''y'' NoExog (ex_state [''ensemble'']) = (Inl e, s')) \<and>
   (\<exists>e. fit_ensemble ex_libs (snd (ex_state [''ensemble''])) = Inl e) \<and>
   fit_ensemble ex_libs ex_one_candidate =
     Inr \<lparr>error = Some 1, cand_fit_model = None, model_type = ''ensemble'',
          predictions = two_columns [ex_month 2020 3] ''en_test_predictions''
            (\<lambda>d. Some 4) (\<lambda>d. Some 5)\<rparr>"
proof -
  let ?self = "snd (ex_state [''ensemble''])"
  let ?c = "\<lparr>error = Some 1, cand_fit_model = Some (TbatsFit 2), model_type = ''tbats'',
          predictions = \<lparr>columns = [''actuals'', ''tb_test_predictions''],
                         rows = [(ex_month 2020 3, [Some 4, Some 5])]\<rparr>\<rparr>"
  have a: "candidate_models ?self = [] \<and> ''ensemble'' \<in> set (model_names ?self) \<and>
    ''auto_arima'' \<notin> set (model_names ?self) \<and>
    ''exponential_smoothing'' \<notin> set (model_names ?self) \<and>
    ''tbats'' \<notin> set (model_names ?self)"
    by (simp add: ex_state_def)
  have b: "candidate_models ex_one_candidate = [?c] \<and>
           ''actuals'' \<in> set (columns (predictions ?c))"
    by (simp add: ex_one_candidate_def)
  have c: "predictions ?c = two_columns [ex_month 2020 3] ''tb_test_predictions''
             (\<lambda>d. Some 4) (\<lambda>d. Some 5) \<and> distinct [ex_month 2020 3] \<and>
           endswith ''tb_test_predictions'' ''predictions'' \<and>
           error_metric_fn ex_libs ex_one_candidate
             (setitem (predictions ?c) ''en_test_predictions''
                (map (\<lambda>d. Some 5) [ex_month 2020 3]))
             ''en_test_predictions'' ''actuals'' = Inr (Some 1)"
    by (simp add: two_columns_def endswith_def error_metric_fn_def ex_one_candidate_def
        ex_state_def ex_libs_def)
  have s: "ex_state [''ensemble''] = (fst (ex_state [''ensemble'']), ?self)" by simp
  from ensemble_fails_without_candidates_only[of ?self ex_libs ex_data "''y''" NoExog
      "fst (ex_state [''ensemble''])" ex_one_candidate ?c "[ex_month 2020 3]"
      "''tb_test_predictions''" "\<lambda>d. Some 4" "\<lambda>d. Some 5" "Some 1"] a b c
  show ?thesis unfolding s[symmetric] by blast
qed

section \<open>predict at the last observed date\<close>

lemma ex_tbats_fitted_eval:
  "fst (fit ex_libs ex_data ''y'' NoExog (ex_state [''tbats''])) = Inr ()"
  "data (snd ex_tbats_fitted) = Some ex_data"
  "is_fitted (snd ex_tbats_fitted)"
  "fit_model (snd ex_tbats_fitted) = Some (TbatsFit 2)"
  "fit_model_type (snd ex_tbats_fitted) = Some ''tbats''"
  "using_exogenous (snd ex_tbats_fitted) = False"
  by (simp_all add: ex_tbats_fitted_def fit_def fit_select_def ex_eval)

lemma ex_arima_fitted_eval:
  "fst (fit ex_libs_in_sample ex_data ''y'' NoExog (ex_state [''auto_arima''])) = Inr ()"
  "data (snd ex_arima_fitted) = Some ex_data"
  "is_fitted (snd ex_arima_fitted)"
  "fit_model (snd ex_arima_fitted) = Some (ArimaFit 0)"
  "fit_model_type (snd ex_arima_fitted) = Some ''auto_arima''"
  "using_exogenous (snd ex_arima_fitted) = False"
  by (simp_all add: ex_arima_fitted_def fit_def fit_select_def ex_libs_in_sample_def ex_eval)

lemmas predict_eval =
  predict_def predict_checks_def predict_dispatch_def predict_tbats_def
  predict_auto_arima_def as_datetime_def data_index_def returned_def as_tbats_def as_arima_def
  dt_less_def dt_le_def plus_one_month_def Series_of_array_def Series_reindex_def
  loc_between_def get_loc_def date_range_MS_def rollforward_def months_between_def
  month_start_plus_def py_index_def df_index_def bind_err_def ex_data_def ex_month_def
  ex_libs_def Let_def series_at_def upt_conv_Cons

lemma ex_tbats_predict:
  "fst (predict ex_libs (Date (ex_month 2020 2)) (Date (ex_month 2020 2)) ExogNone
          ex_tbats_fitted) = Inr (Some [(ex_month 2020 2, Some 2)])"
  "fst (predict ex_libs (Date (ex_month 2020 3)) (Date (ex_month 2020 3)) ExogNone
          ex_tbats_fitted) = Inr (Some [(ex_month 2020 3, Some 5)])"
  by (simp_all add: predict_eval ex_tbats_fitted_eval)

lemma ex_arima_predict:
  "fst (predict ex_libs_in_sample (Date (ex_month 2020 2)) (Date (ex_month 2020 2)) ExogNone
          ex_arima_fitted) = Inr (Some [(ex_month 2020 2, Some 7)])"
  "fst (predict ex_libs_in_sample (Date (ex_month 2020 3)) (Date (ex_month 2020 3)) ExogNone
          ex_arima_fitted) = Inr (Some [(ex_month 2020 3, Some 10)])"
  by (simp_all add: predict_eval ex_arima_fitted_eval ex_libs_in_sample_def)

text \<open>
  C4 at the boundary. The data of the fitted instances end in March 2020. The tests of
  lines 312 and 344 ask for a start date before the last date of the data, so a request
  for the last date alone goes to the last branch, the one the source's comment keeps
  for a start date one month past the data. For February the predictors return the
  in-sample value (2 for BATS, 7 for auto-ARIMA); for March, the last observed date,
  they return one step of forecast (5 and 10) under the label of March, where the BATS
  model's in-sample value is 4.
\<close>

theorem predict_last_date_is_forecast:
  "fst (fit ex_libs ex_data ''y'' NoExog (ex_state [''tbats''])) = Inr () \<and>
   ex_tbats_fitted = snd (fit ex_libs ex_data ''y'' NoExog (ex_state [''tbats''])) \<and>
   map fst (rows ex_data) = [ex_month 2020 1, ex_month 2020 2, ex_month 2020 3] \<and>
   tbats_y_hat ex_libs 2 = [Some 1, Some 2, Some 4] \<and>
   tbats_forecast ex_libs 2 1 = Inr [Some 5] \<and>
   fst (predict ex_libs (Date (ex_month 2020 2)) (Date (ex_month 2020 2)) ExogNone
          ex_tbats_fitted) = Inr (Some [(ex_month 2020 2, Some 2)]) \<and>
   fst (predict ex_libs (Date (ex_month 2020 3)) (Date (ex_month 2020 3)) ExogNone
          ex_tbats_fitted) = Inr (Some [(ex_month 2020 3, Some 5)]) \<and>
   fst (fit ex_libs_in_sample ex_data ''y'' NoExog (ex_state [''auto_arima''])) = Inr () \<and>
   ex_arima_fitted =
     snd (fit ex_libs_in_sample ex_data ''y'' NoExog (ex_state [''auto_arima''])) \<and>
   arima_predict ex_libs_in_sample 0 1 None = Inr [Some 10] \<and>
   fst (predict ex_libs_in_sample (Date (ex_month 2020 2)) (Date (ex_month 2020 2)) ExogNone
          ex_arima_fitted) = Inr (Some [(ex_month 2020 2, Some 7)]) \<and>
   fst (predict ex_libs_in_sample (Date (ex_month 2020 3)) (Date (ex_month 2020 3)) ExogNone
          ex_arima_fitted) = Inr (Some [(ex_month 2020 3, Some 10)])"
  using ex_tbats_fitted_eval(1) ex_arima_fitted_eval(1) ex_tbats_predict ex_arima_predict
  by (simp add: ex_tbats_fitted_def ex_arima_fitted_def ex_libs_in_sample_def ex_libs_def
      ex_data_def)

section \<open>The date checks of predict\<close>

lemma dt_less_irrefl: "\<not> dt_less a a"
  by (simp add: dt_less_def)

lemma dt_less_trans: "dt_less a b \<Longrightarrow> dt_less b c \<Longrightarrow> dt_less a c"
  unfolding dt_less_def by (elim disjE conjE) simp_all

lemma dt_less_total: "\<not> dt_less a b \<Longrightarrow> a \<noteq> b \<Longrightarrow> dt_less b a"
proof -
  assume n: "\<not> dt_less a b" and ne: "a \<noteq> b"
  from ne have "year a \<noteq> year b \<or> month a \<noteq> month b \<or> day a \<noteq> day b \<or> tod a \<noteq> tod b"
    by (auto intro: datetime.equality)
  with n show ?thesis unfolding dt_less_def by (elim disjE) auto
qed

lemma dt_less_plus_one_month: "dt_less d (plus_one_month d)"
  by (simp add: dt_less_def plus_one_month_def Let_def)

lemma py_index_last: "xs \<noteq> [] \<Longrightarrow> py_index xs (- 1) = Inr (last xs)"
  by (cases xs rule: rev_cases) (simp_all add: py_index_def nth_append)

lemma py_index_first: "xs \<noteq> [] \<Longrightarrow> py_index xs 0 = Inr (hd xs)"
  by (cases xs) (simp_all add: py_index_def)

lemma predict_checks_unfold:
  assumes d: "data self = Some d" and ne: "rows d \<noteq> []"
    and st: "\<forall>msg. as_datetime L start_arg msg = Inr start_date"
    and en: "\<forall>msg. as_datetime L end_arg msg = Inr end_date"
  shows "predict_checks L self start_arg end_arg ex =
     (if dt_less end_date start_date
      then Inl (ValueError ''end_date must come after start_date'')
      else if dt_less (plus_one_month (last (df_index d))) start_date
      then Inl (ValueError ''start_date must be no more than 1 month past the last date'')
      else if dt_less start_date (hd (df_index d))
      then Inl (ValueError ''start_date must be later than the earliest date'')
      else if using_exogenous self \<and> dt_less (last (df_index d)) end_date \<and> ex = ExogNone
      then Inl (ValueError ''Exogenous regressor(s) must be provided'')
      else Inr (start_date, end_date, last (df_index d),
             (case ex of
                ExogNone \<Rightarrow> None
              | ExogFrame f \<Rightarrow> Some f
              | ExogSeries name ser \<Rightarrow> Some (series_frame (name, ser)))))"
proof -
  have i: "df_index d \<noteq> []" using ne by (simp add: df_index_def)
  show ?thesis
    unfolding predict_checks_def
    by (simp add: st en d data_index_def bind_err_def py_index_last[OF i] py_index_first[OF i])
qed

lemma ex_exog_fitted_eval:
  "fst (fit ex_libs ex_data_exog ''y'' (ExogName ''x'') (ex_state [''tbats''])) = Inr ()"
  "data (snd ex_exog_fitted) = Some ex_data_exog"
  "is_fitted (snd ex_exog_fitted)"
  "using_exogenous (snd ex_exog_fitted)"
  by (simp_all add: ex_exog_fitted_def ex_data_exog_def fit_def fit_select_def ex_eval)

text \<open>
  C3, as the claim states it, fails at the boundary: the instance below was fitted with
  an exogenous column, its data end in March 2020, and \<^verbatim>\<open>predict\<close> for April 2020,
  one month past the data, with no exogenous values raises the \<open>ValueError\<close> of the
  guard of line 450.
\<close>

theorem predict_boundary_counterexample:
  "fst (fit ex_libs ex_data_exog ''y'' (ExogName ''x'') (ex_state [''tbats''])) = Inr () \<and>
   ex_exog_fitted =
     snd (fit ex_libs ex_data_exog ''y'' (ExogName ''x'') (ex_state [''tbats''])) \<and>
   last (df_index ex_data_exog) = ex_month 2020 3 \<and>
   plus_one_month (ex_month 2020 3) = ex_month 2020 4 \<and>
   predict ex_libs (Date (ex_month 2020 4)) (Date (ex_month 2020 4)) ExogNone ex_exog_fitted =
     (Inl (ValueError ''Exogenous regressor(s) must be provided''), ex_exog_fitted)"
  using ex_exog_fitted_eval(1)
  by (simp add: ex_exog_fitted_eval(2-) predict_def predict_checks_def as_datetime_def
      data_index_def bind_err_def py_index_def df_index_def ex_data_exog_def ex_month_def
      dt_less_def plus_one_month_def days_in_month_def Let_def)
     (simp add: ex_exog_fitted_def ex_data_exog_def ex_month_def)

text \<open>
  C3, amended. On a fitted instance whose data are not empty, for a start and an end
  that are datetimes or strings that parse: \<^verbatim>\<open>predict\<close> raises a \<open>ValueError\<close> and
  leaves the instance as it was when the start is after the end, when the start is
  after the last date of the data plus one month, and when the start is before the
  first date of the data. With the start exactly one month after the last date, the end
  not before the start and the start not before the first date, the date checks let the
  request through: \<^verbatim>\<open>predict\<close> raises the \<open>ValueError\<close> of the exogenous guard when
  \<^verbatim>\<open>fit\<close> was given exogenous columns and \<^verbatim>\<open>predict\<close> none, and otherwise
  returns or raises what the predictor of the retained model type does.
\<close>

theorem predict_date_checks:
  assumes fitted: "is_fitted (snd s)"
    and d: "data (snd s) = Some d" and ne: "rows d \<noteq> []"
    and st: "\<forall>msg. as_datetime L start_arg msg = Inr start_date"
    and en: "\<forall>msg. as_datetime L end_arg msg = Inr end_date"
  shows "(dt_less end_date start_date \<or>
          dt_less (plus_one_month (last (df_index d))) start_date \<or>
          dt_less start_date (hd (df_index d)) \<longrightarrow>
            (\<exists>msg. predict L start_arg end_arg ex s = (Inl (ValueError msg), s))) \<and>
         (start_date = plus_one_month (last (df_index d)) \<and>
          \<not> dt_less end_date start_date \<and> \<not> dt_less start_date (hd (df_index d)) \<longrightarrow>
            predict L start_arg end_arg ex s =
              (if using_exogenous (snd s) \<and> ex = ExogNone
               then (Inl (ValueError ''Exogenous regressor(s) must be provided''), s)
               else predict_dispatch L start_date end_date (last (df_index d))
                      (case ex of
                         ExogNone \<Rightarrow> None
                       | ExogFrame f \<Rightarrow> Some f
                       | ExogSeries name ser \<Rightarrow> Some (series_frame (name, ser))) s))"
proof -
  note u = predict_checks_unfold[OF d ne st en, of ex]
  have p: "predict L start_arg end_arg ex s =
             (case predict_checks L (snd s) start_arg end_arg ex of
                Inl e \<Rightarrow> (Inl e, s)
              | Inr (start_date, end_date, last_date, exog') \<Rightarrow>
                  predict_dispatch L start_date end_date last_date exog' s)"
    using fitted by (simp add: predict_def)
  have 1: "\<exists>msg. predict L start_arg end_arg ex s = (Inl (ValueError msg), s)"
    if "dt_less end_date start_date \<or>
        dt_less (plus_one_month (last (df_index d))) start_date \<or>
        dt_less start_date (hd (df_index d))"
    using that unfolding p u by auto
  have 2: "predict L start_arg end_arg ex s =
              (if using_exogenous (snd s) \<and> ex = ExogNone
               then (Inl (ValueError ''Exogenous regressor(s) must be provided''), s)
               else predict_dispatch L start_date end_date (last (df_index d))
                      (case ex of
                         ExogNone \<Rightarrow> None
                       | ExogFrame f \<Rightarrow> Some f
                       | ExogSeries name ser \<Rightarrow> Some (series_frame (name, ser))) s)"
    if b: "start_date = plus_one_month (last (df_index d))"
      and e: "\<not> dt_less end_date start_date" and f: "\<not> dt_less start_date (hd (df_index d))"
  proof -
    have l: "dt_less (last (df_index d)) start_date"
      unfolding b by (rule dt_less_plus_one_month)
    have "dt_less (last (df_index d)) end_date"
    proof (cases "end_date = start_date")
      case True
      with l show ?thesis by simp
    next
      case False
      from dt_less_total[OF e False] have "dt_less start_date end_date" .
      with l show ?thesis by (rule dt_less_trans)
    qed
    moreover have "\<not> dt_less (plus_one_month (last (df_index d))) start_date"
      unfolding b by (rule dt_less_irrefl)
    ultimately show ?thesis unfolding p u using e f by simp
  qed
  from 1 2 show ?thesis by blast
qed

theorem predict_date_checks_witness:
  "is_fitted (snd ex_tbats_fitted) \<and>
   last (df_index ex_data) = ex_month 2020 3 \<and>
   fst (predict ex_libs (Date (ex_month 2020 4)) (Date (ex_month 2020 4)) ExogNone
          ex_tbats_fitted) = Inr (Some [(ex_month 2020 4, Some 5)]) \<and>
   (\<exists>msg. predict ex_libs (Date (ex_month 2020 5)) (Date (ex_month 2020 5)) ExogNone
            ex_tbats_fitted = (Inl (ValueError msg), ex_tbats_fitted)) \<and>
   (\<exists>msg. predict ex_libs (Date (ex_month 2019 12)) (Date (ex_month 2020 2)) ExogNone
            ex_tbats_fitted = (Inl (ValueError msg), ex_tbats_fitted)) \<and>
   (\<exists>msg. predict ex_libs (Date (ex_month 2020 3)) (Date (ex_month 2020 2)) ExogNone
            ex_tbats_fitted = (Inl (ValueError msg), ex_tbats_fitted))"
proof -
  have ne: "rows ex_data \<noteq> []" by (simp add: ex_data_def)
  have dt: "\<forall>msg. as_datetime ex_libs (Date x) msg = Inr x" for x
    by (simp add: as_datetime_def)
  have i: "last (df_index ex_data) = ex_month 2020 3" "hd (df_index ex_data) = ex_month 2020 1"
    by (simp_all add: df_index_def ex_data_def)
  have pm: "plus_one_month (ex_month 2020 3) = ex_month 2020 4"
    by (simp add: plus_one_month_def ex_month_def days_in_month_def Let_def)
  have t: "(dt_less y x \<or> dt_less (ex_month 2020 4) x \<or> dt_less x (ex_month 2020 1) \<longrightarrow>
              (\<exists>msg. predict ex_libs (Date x) (Date y) ExogNone ex_tbats_fitted =
                 (Inl (ValueError msg), ex_tbats_fitted))) \<and>
           (x = ex_month 2020 4 \<and> \<not> dt_less y x \<and> \<not> dt_less x (ex_month 2020 1) \<longrightarrow>
              predict ex_libs (Date x) (Date y) ExogNone ex_tbats_fitted =
                predict_dispatch ex_libs x y (ex_month 2020 3) None ex_tbats_fitted)" for x y
    using predict_date_checks[OF ex_tbats_fitted_eval(3) ex_tbats_fitted_eval(2) ne
        dt[of x] dt[of y], of ExogNone]
    unfolding i pm by (auto simp add: ex_tbats_fitted_eval)
  have 1: "fst (predict ex_libs (Date (ex_month 2020 4)) (Date (ex_month 2020 4)) ExogNone
          ex_tbats_fitted) = Inr (Some [(ex_month 2020 4, Some 5)])"
  proof -
    have "predict ex_libs (Date (ex_month 2020 4)) (Date (ex_month 2020 4)) ExogNone
            ex_tbats_fitted =
          predict_dispatch ex_libs (ex_month 2020 4) (ex_month 2020 4) (ex_month 2020 3) None
            ex_tbats_fitted"
      using t[of "ex_month 2020 4" "ex_month 2020 4"]
      by (simp add: dt_less_def ex_month_def)
    thus ?thesis
      by (simp add: predict_dispatch_def predict_tbats_def data_index_def returned_def
          as_tbats_def dt_less_def dt_le_def Series_of_array_def date_range_MS_def
          rollforward_def months_between_def month_start_plus_def py_index_def df_index_def
          bind_err_def ex_data_def ex_month_def ex_libs_def Let_def upt_conv_Cons
          ex_tbats_fitted_eval)
  qed
  have 2: "\<exists>msg. predict ex_libs (Date (ex_month 2020 5)) (Date (ex_month 2020 5)) ExogNone
            ex_tbats_fitted = (Inl (ValueError msg), ex_tbats_fitted)"
    using t[of "ex_month 2020 5" "ex_month 2020 5"]
    by (simp add: dt_less_def ex_month_def)
  have 3: "\<exists>msg. predict ex_libs (Date (ex_month 2019 12)) (Date (ex_month 2020 2)) ExogNone
            ex_tbats_fitted = (Inl (ValueError msg), ex_tbats_fitted)"
    using t[of "ex_month 2020 2" "ex_month 2019 12"]
    by (simp add: dt_less_def ex_month_def)
  have 4: "\<exists>msg. predict ex_libs (Date (ex_month 2020 3)) (Date (ex_month 2020 2)) ExogNone
            ex_tbats_fitted = (Inl (ValueError msg), ex_tbats_fitted)"
    using t[of "ex_month 2020 2" "ex_month 2020 3"]
    by (simp add: dt_less_def ex_month_def)
  from 1 2 3 4 i(1) ex_tbats_fitted_eval(3) show ?thesis by simp
qed

end
